theory Spec2Isabelle
  imports Main "HOL-Library.Sublist"
begin

section \<open>Roles and the configuration of a document kind\<close>

text \<open>
  Modelled from the spec: the enum \<open>ERole\<close> is declared in \<open>@/core/types/user\<close>, which is
  not part of the sources. The class \<open>Doc\<close> names two of its members, \<open>ERole.GEST\<close> (the
  guest role) and \<open>ERole.SELLER\<close> (the default bar of the write actions); every other member
  is kept by its string value.
\<close>

datatype ERole = GEST | SELLER | OtherRole string

text \<open>\<open>types/general.ts\<close>, \<open>IDocOptions\<close>: the pair \<open>{role, public}\<close> of an owner-aware action.\<close>

record RolePublic =
  role :: ERole
  public :: bool

text \<open>\<open>IDocOptions.permissions.advance\<close>: every field is optional in the declaration.\<close>

record Advance =
  getAll :: "ERole option"
  getOne :: "ERole option"
  create :: "ERole option"
  edit :: "RolePublic option"
  delete :: "RolePublic option"
  getDrafts :: "RolePublic option"

text \<open>
  \<open>IDocOptions.permissions\<close>. The shorthands \<open>read\<close> and \<open>write\<close> of the source are the fields
  \<open>readRole\<close> and \<open>writeRole\<close> here.
\<close>

record Permissions =
  readRole :: "ERole option"
  writeRole :: "ERole option"
  advance :: "Advance option"

text \<open>\<open>IDocOptions.comments\<close>.\<close>

record Comments =
  enabled :: bool
  canWrite :: ERole
  needToVerify :: bool
  canVerify :: RolePublic
  canMange :: ERole

text \<open>
  \<open>IDocOptions\<close>, the fields the access rules read. The storage schema, the index list, the
  category block and the search fields only feed the construction of the storage models.
\<close>

record IDocOptions =
  docName :: string
  slugBase :: "string option"
  permissions :: "Permissions option"
  comments :: "Comments option"

text \<open>The operator \<open>a ?? b\<close>: \<open>b\<close> when \<open>a\<close> is null or undefined.\<close>

definition nullish :: "'a option \<Rightarrow> 'a \<Rightarrow> 'a" where
  "nullish a b = (case a of None \<Rightarrow> b | Some x \<Rightarrow> x)"

text \<open>
  The first statement of the constructor (\<open>// processing permissions\<close>). Optional chaining
  \<open>document.permissions?.advance?.getAll\<close> is \<open>Option.bind\<close>; the spread
  \<open>...document.permissions\<close> keeps the two shorthands as they were.
\<close>

definition processPermissions :: "Permissions option \<Rightarrow> Permissions" where
  "processPermissions p =
     (let adv = Option.bind p advance;
          rd = Option.bind p readRole;
          wr = Option.bind p writeRole
      in \<lparr> readRole = rd, writeRole = wr,
           advance = Some
             \<lparr> getAll = Some (nullish (Option.bind adv getAll) (nullish rd GEST)),
               getOne = Some (nullish (Option.bind adv getOne) (nullish rd GEST)),
               create = Some (nullish (Option.bind adv create) (nullish wr SELLER)),
               edit = Some (nullish (Option.bind adv edit)
                              \<lparr> role = nullish wr SELLER, public = True \<rparr>),
               delete = Some (nullish (Option.bind adv delete)
                              \<lparr> role = nullish wr SELLER, public = False \<rparr>),
               getDrafts = Some (nullish (Option.bind adv getDrafts)
                              \<lparr> role = nullish wr SELLER, public = True \<rparr>) \<rparr> \<rparr>)"

text \<open>
  The constructor: \<open>this.document\<close> is the configuration (\<open>opts\<close> here and below) with its
  permissions processed.
\<close>

definition Doc_constructor :: "IDocOptions \<Rightarrow> IDocOptions" where
  "Doc_constructor opts = opts \<lparr> permissions := Some (processPermissions (permissions opts)) \<rparr>"

text \<open>
  The precedence in the words of the specification: the explicit advance field, else the
  top-level shorthand, else the hard-coded default.
\<close>

fun precedence :: "'a option \<Rightarrow> 'a option \<Rightarrow> 'a \<Rightarrow> 'a" where
  "precedence (Some explicit) shorthand dflt = explicit"
| "precedence None (Some short) dflt = short"
| "precedence None None dflt = dflt"

text \<open>For an owner-aware action the shorthand and the default give the role of a default pair.\<close>

fun precedencePair :: "RolePublic option \<Rightarrow> ERole option \<Rightarrow> ERole \<Rightarrow> bool \<Rightarrow> RolePublic" where
  "precedencePair (Some explicit) shorthand dflt pub = explicit"
| "precedencePair None (Some short) dflt pub = \<lparr> role = short, public = pub \<rparr>"
| "precedencePair None None dflt pub = \<lparr> role = dflt, public = pub \<rparr>"

text \<open>A permission block is populated when none of its six advance fields is null.\<close>

definition populated :: "Permissions \<Rightarrow> bool" where
  "populated p =
     (case advance p of None \<Rightarrow> False
      | Some a \<Rightarrow> getAll a \<noteq> None \<and> getOne a \<noteq> None \<and> create a \<noteq> None \<and>
                  edit a \<noteq> None \<and> delete a \<noteq> None \<and> getDrafts a \<noteq> None)"

section \<open>Messages, status codes and results\<close>

text \<open>\<open>types/general.ts\<close>: the lifecycle states of a document and of a comment.\<close>

datatype EStates = PUBLISHED | DRAFT

datatype ECommentState = ACCEPTED | REJECTED | WAITING | PARENT_DELETED

text \<open>\<open>messages/document\<close>: the messages of the document operations.\<close>

datatype EDocumentMSG =
    SUCCESS | SUCCESS_CREATE | SUCCESS_EDIT | SUCCESS_DELETE | CAN_CREATE_DOCUMENT
  | USER_NOT_FOUND | AUTHOR_NOT_FOUND | DOCUMENT_NOT_FOUND | EDITOR_NOT_FOUND
  | NO_PERMISSION | NEW_AUTHOR_IS_NOT_VALID

text \<open>
  Modelled from the spec: the enums \<open>ECommentMSG\<close> (\<open>./messages/comment\<close>) and
  \<open>EStatusCodes\<close> (\<open>@/core/types/general\<close>) are not part of the sources; they are given the
  members that the class \<open>Doc\<close> names. Members of the same name in different enums are told
  apart by the enum, as in the source (\<open>EDocumentMSG.SUCCESS\<close>, \<open>ECommentMSG.SUCCESS\<close>).
\<close>

datatype ECommentMSG =
    SUCCESS | SUCCESS_CREATE | SUCCESS_EDIT | SUCCESS_DELETE
  | USER_NOT_FOUND | COMMENT_NOT_FOUND | ARTICLE_NOT_FOUND | NO_PERMISSION

datatype EStatusCodes = SUCCESS | SUCCESS_CREATE | NOT_FOUND | CONFLICT | FORBIDDEN

text \<open>
  The status argument of a result: left out by the caller (the result class then applies its
  own default), a member of \<open>EStatusCodes\<close>, or a number written in the code.
\<close>

datatype StatusArg = NoStatus | Status EStatusCodes | Literal nat

text \<open>
  Modelled from the spec: \<open>getPageData\<close> and \<open>ConvertToNaturalNumber\<close> are helpers of
  \<open>@/core/helpers/general\<close>, not part of the sources. Section 4.4: an input that is not a
  positive integer is mapped to 1; the page count is the total divided by the limit, rounded
  up; there is a next page when the page is below the page count and a previous page when it
  is above 1. Page and limit are integers here.
\<close>

record PageData =
  page :: nat
  limit :: nat
  totalItems :: nat
  totalPages :: nat
  hasNext :: bool
  hasPrev :: bool

definition ConvertToNaturalNumber :: "int \<Rightarrow> nat" where
  "ConvertToNaturalNumber n = (if n < 1 then 1 else nat n)"

definition getPageData :: "nat \<Rightarrow> nat \<Rightarrow> nat \<Rightarrow> PageData" where
  "getPageData pg lim count =
     (let pages = (count + lim - 1) div lim
      in \<lparr> page = pg, limit = lim, totalItems = count, totalPages = pages,
           hasNext = (pg < pages), hasPrev = (1 < pg) \<rparr>)"

text \<open>
  The results of the operations, by the call that builds them: \<open>result.singleError(field,
  message, status?)\<close>, \<open>result.success(data, message, status?)\<close>, and the object literal
  \<open>{status, type: SUCCESS, data, pageData}\<close> of the listings. \<open>data\<close> is optional in
  \<open>IDocumentResult\<close>.
\<close>

datatype ('d, 'm) IDocumentResult =
    SingleError string 'm StatusArg
  | Success "'d option" 'm StatusArg
  | Paged "'d list" PageData StatusArg

text \<open>\<open>new Error("comments are disabled")\<close>, returned in place of a result.\<close>

datatype JsError = Error string

section \<open>Users, documents, comments and their collections\<close>

text \<open>
  Modelled from the spec: the model \<open>User\<close> (\<open>@/core/models/User\<close>) is not part of the
  sources. Section 6: a user record has at least an identifier and a role. \<open>user_id\<close> is
  the string that \<open>user.id\<close> and \<open>user._id.toString()\<close> give.
\<close>

record User =
  user_id :: string
  user_role :: ERole

text \<open>
  A stored document of the model built by \<open>createModel\<close>: the identifier, the slug (when the
  kind has a \<open>slugBase\<close>), the state, the author, and the fields of the kind's own schema.
  The schema types \<open>_id\<close> and \<open>authorId\<close> as \<open>ObjectId\<close>; the record keeps the hexadecimal
  string of the identifier, and \<open>authorId = None\<close> is a record without an author.
\<close>

record 'a IModel =
  doc_id :: string
  slug :: "string option"
  doc_state :: EStates
  authorId :: "string option"
  content :: 'a

text \<open>
  \<open>Partial<IModel>\<close>, the payload of \<open>edit\<close>. \<open>new_authorId = None\<close> is a payload without
  the key \<open>authorId\<close>; \<open>Some None\<close> is the key with an undefined value.
\<close>

record 'a PartialIModel =
  new_slug :: "string option"
  new_state :: "EStates option"
  new_authorId :: "string option option"
  new_content :: "'a option"

text \<open>
  A stored comment of the model built by \<open>createCommentsModel\<close>. The schema types \<open>_id\<close>,
  \<open>document\<close>, \<open>user\<close> and \<open>parent\<close> as \<open>ObjectId\<close>; the record keeps their hexadecimal
  strings.
\<close>

record IComment =
  comment_id :: string
  title :: string
  body :: string
  document :: string
  user :: "string option"
  parent :: "string option"
  state :: ECommentState

text \<open>\<open>Partial<IComment>\<close>, the payload of \<open>editComment\<close>, over the stored fields.\<close>

record PartialIComment =
  upd_title :: "string option"
  upd_body :: "string option"
  upd_document :: "string option"
  upd_user :: "string option"
  upd_parent :: "string option"
  upd_state :: "ECommentState option"

text \<open>\<open>ICommentFilter\<close> of \<open>types/general.ts\<close>.\<close>

record ICommentFilter =
  filter_user :: "string option"
  filter_state :: "ECommentState option"
  filter_article :: "string option"

text \<open>
  The storage collaborator (section 6 of the spec) is a collection in its natural order.
  \<open>findById\<close> returns the first record with the identifier, and nothing for an undefined
  identifier; \<open>deleteOne\<close> removes the first record that matches the filter;
  \<open>findByIdAndUpdate\<close> updates the first record with the identifier and returns the record
  as it was before the update. Storage faults (the \<open>catch\<close> branches, \<open>handleModelErrors\<close>)
  are outside the model: every storage call below answers.
\<close>

definition findById :: "('a \<Rightarrow> string) \<Rightarrow> 'a list \<Rightarrow> string option \<Rightarrow> 'a option" where
  "findById key xs i = (case i of None \<Rightarrow> None | Some v \<Rightarrow> find (\<lambda>x. key x = v) xs)"

fun deleteOne :: "('a \<Rightarrow> bool) \<Rightarrow> 'a list \<Rightarrow> 'a list" where
  "deleteOne P [] = []"
| "deleteOne P (x # xs) = (if P x then xs else x # deleteOne P xs)"

fun updateOne :: "('a \<Rightarrow> bool) \<Rightarrow> ('a \<Rightarrow> 'a) \<Rightarrow> 'a list \<Rightarrow> 'a list" where
  "updateOne P f [] = []"
| "updateOne P f (x # xs) = (if P x then f x # xs else x # updateOne P f xs)"

definition findByIdAndUpdate ::
    "('a \<Rightarrow> string) \<Rightarrow> string \<Rightarrow> ('a \<Rightarrow> 'a) \<Rightarrow> 'a list \<Rightarrow> 'a option \<times> 'a list" where
  "findByIdAndUpdate key i f xs =
     (find (\<lambda>x. key x = i) xs, updateOne (\<lambda>x. key x = i) f xs)"

definition User_findById :: "User list \<Rightarrow> string option \<Rightarrow> User option" where
  "User_findById users i = findById user_id users i"

text \<open>
  Modelled from the spec: \<open>findDocByIdentity\<close> is a helper of \<open>@/core/helpers/general\<close>, not
  part of the sources. Section 4.3: when the identity has the storage engine's identifier
  format the record is looked up by identifier, otherwise by slug; one lookup per call. The
  format test \<open>isId\<close>, the identifier and the slug of a record are parameters.
\<close>

definition findDocByIdentity ::
    "(string \<Rightarrow> bool) \<Rightarrow> ('a \<Rightarrow> string) \<Rightarrow> ('a \<Rightarrow> string option) \<Rightarrow> string \<Rightarrow> 'a list \<Rightarrow> 'a option" where
  "findDocByIdentity isId key slugOf identity coll =
     (if isId identity then find (\<lambda>x. key x = identity) coll
      else find (\<lambda>x. slugOf x = Some identity) coll)"

text \<open>
  The strict inequality \<open>a !== b\<close> of an \<open>ObjectId\<close> path \<open>a\<close> and a string \<open>b\<close>, each of
  which can be undefined: an \<open>ObjectId\<close> is an object and a string is not, so the two are
  strictly equal only when both are undefined. The class compares \<open>document.authorId\<close> with
  \<open>user?.id\<close> and \<open>comment.user\<close> with \<open>user._id.toString()\<close> this way.
\<close>

definition strictNotEqual :: "string option \<Rightarrow> string option \<Rightarrow> bool" where
  "strictNotEqual objectId str = (objectId \<noteq> None \<or> str \<noteq> None)"

text \<open>
  The update \<open>$set\<close> of a comment payload: every key the payload has replaces the stored
  value; the schema of a comment has all six paths.
\<close>

definition applyCommentData :: "PartialIComment \<Rightarrow> IComment \<Rightarrow> IComment" where
  "applyCommentData data c =
     c \<lparr> title := nullish (upd_title data) (title c),
         body := nullish (upd_body data) (body c),
         document := nullish (upd_document data) (document c),
         user := (case upd_user data of None \<Rightarrow> user c | Some u \<Rightarrow> Some u),
         parent := (case upd_parent data of None \<Rightarrow> parent c | Some q \<Rightarrow> Some q),
         state := nullish (upd_state data) (state c) \<rparr>"

text \<open>\<open>!userId\<close> on an optional string: undefined and the empty string are falsy.\<close>

definition falsy :: "string option \<Rightarrow> bool" where
  "falsy s = (s = None \<or> s = Some [])"

text \<open>\<open>sort.join(" ")\<close>.\<close>

fun join :: "string list \<Rightarrow> string" where
  "join [] = []"
| "join [x] = x"
| "join (x # y # zs) = x @ '' '' @ join (y # zs)"

section \<open>The document operations\<close>

text \<open>
  \<open>permissionsCheck\<close> (\<open>@/core/helpers/auth\<close>) is not part of the sources: it is a parameter
  of every operation that calls it. Both of its arguments can be undefined in the calls of
  the class (\<open>permissions?.role\<close>, \<open>user?.role\<close>).

  The write operations return the result, the collection after the call, and the checks the
  call evaluated, in the order of evaluation: each entry is one \<open>if\<close> of the source that
  returns an error.
\<close>

datatype check =
    DocumentExists | ActorGiven | ActorExists | RolePermission | Ownership
  | NewAuthorExists | NewAuthorPermission

text \<open>\<open>this.document.permissions?.advance\<close>.\<close>

definition advanceOf :: "IDocOptions \<Rightarrow> Advance option" where
  "advanceOf opts = Option.bind (permissions opts) advance"

text \<open>
  The paths that \<open>createModel\<close> adds to the schema of the kind: \<open>state\<close> always, \<open>slug\<close>
  when \<open>document.slugBase\<close> is truthy, \<open>authorId\<close> when the \<open>create\<close> action is not
  guest-level.
\<close>

definition hasSlugPath :: "IDocOptions \<Rightarrow> bool" where
  "hasSlugPath opts = (\<not> falsy (slugBase opts))"

definition hasAuthorPath :: "IDocOptions \<Rightarrow> bool" where
  "hasAuthorPath opts = (Option.bind (advanceOf opts) create \<noteq> Some GEST)"

text \<open>
  The update \<open>$set\<close> of a document payload: a key the payload has replaces the stored value
  when the schema has the path, and is dropped otherwise.
\<close>

definition applyData :: "IDocOptions \<Rightarrow> 'a PartialIModel \<Rightarrow> 'a IModel \<Rightarrow> 'a IModel" where
  "applyData opts data d =
     d \<lparr> slug := (case new_slug data of None \<Rightarrow> slug d
                  | Some s \<Rightarrow> if hasSlugPath opts then Some s else slug d),
         doc_state := nullish (new_state data) (doc_state d),
         authorId := (case new_authorId data of None \<Rightarrow> authorId d
                      | Some a \<Rightarrow> if hasAuthorPath opts then a else authorId d),
         content := nullish (new_content data) (content d) \<rparr>"

text \<open>\<open>Model.find(filter)\<close> with the filter \<open>{state?: EStates}\<close> of \<open>getAll\<close>.\<close>

definition Model_find :: "EStates option \<Rightarrow> 'a IModel list \<Rightarrow> 'a IModel list" where
  "Model_find flt docs =
     filter (\<lambda>d. case flt of None \<Rightarrow> True | Some s \<Rightarrow> doc_state d = s) docs"

text \<open>
  \<open>getAll\<close>. The order that the storage engine gives to a sort string is the parameter
  \<open>sortBy\<close>; the optional \<open>sort\<close> defaults to \<open>["-createdAt"]\<close>.
\<close>

definition Doc_getAll ::
    "(ERole option \<Rightarrow> ERole option \<Rightarrow> bool) \<Rightarrow> (string \<Rightarrow> 'a IModel list \<Rightarrow> 'a IModel list) \<Rightarrow>
     IDocOptions \<Rightarrow> User list \<Rightarrow> 'a IModel list \<Rightarrow> int \<Rightarrow> int \<Rightarrow> string list option \<Rightarrow>
     string option \<Rightarrow> ('a IModel, EDocumentMSG) IDocumentResult" where
  "Doc_getAll permissionsCheck sortBy opts users docs pg lim sortArg userId =
     (let getAllRole = Option.bind (advanceOf opts) getAll;
          draftsRole = map_option role (Option.bind (advanceOf opts) getDrafts);
          usr = (if getAllRole \<noteq> Some GEST then User_findById users userId else None)
      in if getAllRole \<noteq> Some GEST \<and> falsy userId then
           SingleError ''user'' EDocumentMSG.USER_NOT_FOUND NoStatus
         else if getAllRole \<noteq> Some GEST \<and>
                 \<not> permissionsCheck getAllRole (map_option user_role usr) then
           SingleError ''user'' EDocumentMSG.NO_PERMISSION NoStatus
         else
           let pg1 = ConvertToNaturalNumber pg;
               lim1 = ConvertToNaturalNumber lim;
               skip = (pg1 - 1) * lim1;
               usr2 = (case usr of None \<Rightarrow> User_findById users userId | Some u \<Rightarrow> Some u);
               flt = (if draftsRole = Some GEST then None
                      else if \<not> falsy userId \<and>
                              permissionsCheck draftsRole (map_option user_role usr2)
                           then None else Some PUBLISHED);
               doc = take lim1 (drop skip (sortBy (join (nullish sortArg [''-createdAt''])) (Model_find flt docs)));
               totalArticles = length (Model_find flt docs)
           in Paged doc (getPageData pg1 lim1 totalArticles) (Literal 200))"

text \<open>
  \<open>create\<close>. The record that the storage engine makes of a payload (identifier, defaults,
  slug) is the parameter \<open>Model_create\<close>.
\<close>

definition Doc_create ::
    "(ERole option \<Rightarrow> ERole option \<Rightarrow> bool) \<Rightarrow> ('p \<Rightarrow> 'a IModel list \<Rightarrow> 'a IModel) \<Rightarrow>
     IDocOptions \<Rightarrow> User list \<Rightarrow> 'a IModel list \<Rightarrow> 'p \<Rightarrow> string option \<Rightarrow>
     ('a IModel, EDocumentMSG) IDocumentResult \<times> 'a IModel list \<times> check list" where
  "Doc_create permissionsCheck Model_create opts users docs data author =
     (let createRole = Option.bind (advanceOf opts) create;
          saved = (Success (Some (Model_create data docs)) EDocumentMSG.SUCCESS_CREATE
                     (Status EStatusCodes.SUCCESS_CREATE),
                   docs @ [Model_create data docs])
      in if createRole \<noteq> Some GEST then
           (if falsy author then
              (SingleError ''user'' AUTHOR_NOT_FOUND NoStatus, docs, [ActorGiven])
            else case User_findById users author of
                None \<Rightarrow>
                  (SingleError ''user'' AUTHOR_NOT_FOUND NoStatus, docs, [ActorGiven, ActorExists])
              | Some usr \<Rightarrow>
                  if \<not> permissionsCheck createRole (Some (user_role usr)) then
                    (SingleError ''user'' EDocumentMSG.NO_PERMISSION NoStatus, docs,
                     [ActorGiven, ActorExists, RolePermission])
                  else (fst saved, snd saved, [ActorGiven, ActorExists, RolePermission]))
         else (fst saved, snd saved, []))"

text \<open>
  \<open>edit\<close>. \<open>findByIdAndUpdate\<close> is called without the option \<open>new\<close>: the result carries
  the record as it was before the update. The ownership test is the strict inequality of
  \<open>document.authorId\<close> and \<open>user?.id\<close>.
\<close>

definition Doc_edit ::
    "(ERole option \<Rightarrow> ERole option \<Rightarrow> bool) \<Rightarrow> (string \<Rightarrow> bool) \<Rightarrow>
     IDocOptions \<Rightarrow> User list \<Rightarrow> 'a IModel list \<Rightarrow> string \<Rightarrow> 'a PartialIModel \<Rightarrow> string option \<Rightarrow>
     ('a IModel, EDocumentMSG) IDocumentResult \<times> 'a IModel list \<times> check list" where
  "Doc_edit permissionsCheck isId opts users docs identity data editorId =
     (let perm = Option.bind (advanceOf opts) edit;
          permRole = map_option role perm;
          permPublic = map_option public perm
      in case findDocByIdentity isId doc_id slug identity docs of
           None \<Rightarrow> (SingleError ''document'' DOCUMENT_NOT_FOUND NoStatus, docs, [DocumentExists])
         | Some d \<Rightarrow>
             let userNeeded = (permRole \<noteq> Some GEST \<or> permPublic \<noteq> Some True);
                 usr = (if userNeeded then User_findById users editorId else None);
                 c1 = [DocumentExists] @ (if userNeeded then [ActorExists] else []);
                 c2 = c1 @ (if permRole \<noteq> Some GEST then [RolePermission] else []);
                 c3 = c2 @ (if permPublic \<noteq> Some True then [Ownership] else []);
                 saved = (Success (fst (findByIdAndUpdate doc_id (doc_id d) (applyData opts data) docs))
                            EDocumentMSG.SUCCESS_EDIT (Status EStatusCodes.SUCCESS_CREATE),
                          snd (findByIdAndUpdate doc_id (doc_id d) (applyData opts data) docs))
             in if userNeeded \<and> usr = None then
                  (SingleError ''user'' EDocumentMSG.USER_NOT_FOUND NoStatus, docs, c1)
                else if permRole \<noteq> Some GEST \<and>
                        \<not> permissionsCheck permRole (map_option user_role usr) then
                  (SingleError ''user'' EDocumentMSG.NO_PERMISSION NoStatus, docs, c2)
                else if permPublic \<noteq> Some True \<and>
                        strictNotEqual (authorId d) (map_option user_id usr) then
                  (SingleError ''user'' EDocumentMSG.NO_PERMISSION NoStatus, docs, c3)
                else case new_authorId data of
                    None \<Rightarrow> (fst saved, snd saved, c3)
                  | Some a \<Rightarrow>
                      (case User_findById users a of
                         None \<Rightarrow>
                           (SingleError ''new_author'' EDocumentMSG.USER_NOT_FOUND
                              (Status NOT_FOUND), docs, c3 @ [NewAuthorExists])
                       | Some newAuthor \<Rightarrow>
                           if \<not> permissionsCheck (Option.bind (advanceOf opts) create)
                                  (Some (user_role newAuthor)) then
                             (SingleError ''new_author'' NEW_AUTHOR_IS_NOT_VALID NoStatus, docs,
                              c3 @ [NewAuthorExists, NewAuthorPermission])
                           else (fst saved, snd saved,
                                 c3 @ [NewAuthorExists, NewAuthorPermission])))"

text \<open>
  \<open>delete\<close>. The storage call is \<open>this.Model.deleteOne()\<close>, a delete on the model with no
  filter: it removes the first record of the collection.
\<close>

definition Doc_delete ::
    "(ERole option \<Rightarrow> ERole option \<Rightarrow> bool) \<Rightarrow> (string \<Rightarrow> bool) \<Rightarrow>
     IDocOptions \<Rightarrow> User list \<Rightarrow> 'a IModel list \<Rightarrow> string \<Rightarrow> string option \<Rightarrow>
     ('a IModel, EDocumentMSG) IDocumentResult \<times> 'a IModel list \<times> check list" where
  "Doc_delete permissionsCheck isId opts users docs identity userId =
     (let perm = Option.bind (advanceOf opts) delete;
          permRole = map_option role perm;
          permPublic = map_option public perm
      in case findDocByIdentity isId doc_id slug identity docs of
           None \<Rightarrow> (SingleError ''document'' DOCUMENT_NOT_FOUND NoStatus, docs, [DocumentExists])
         | Some d \<Rightarrow>
             let userNeeded = (permRole \<noteq> Some GEST \<or> permPublic \<noteq> Some True);
                 usr = (if userNeeded then User_findById users userId else None);
                 c1 = [DocumentExists] @ (if userNeeded then [ActorExists] else []);
                 c2 = c1 @ (if permRole \<noteq> Some GEST then [RolePermission] else []);
                 c3 = c2 @ (if permPublic \<noteq> Some True then [Ownership] else [])
             in if userNeeded \<and> usr = None then
                  (SingleError ''user'' EDocumentMSG.USER_NOT_FOUND NoStatus, docs, c1)
                else if permRole \<noteq> Some GEST \<and>
                        \<not> permissionsCheck permRole (map_option user_role usr) then
                  (SingleError ''user'' EDocumentMSG.NO_PERMISSION NoStatus, docs, c2)
                else if permPublic \<noteq> Some True \<and>
                        strictNotEqual (authorId d) (map_option user_id usr) then
                  (SingleError ''user'' EDocumentMSG.NO_PERMISSION NoStatus, docs, c3)
                else (Success (Some d) EDocumentMSG.SUCCESS_DELETE (Status EStatusCodes.SUCCESS),
                      deleteOne (\<lambda>x. True) docs, c3))"

section \<open>The comment operations\<close>

text \<open>
  The guard of every comment operation, \<open>!this.CommentModel || !this.document.comments?.enabled\<close>:
  the constructor builds the comment model exactly when the comments are enabled.
\<close>

definition commentsEnabled :: "IDocOptions \<Rightarrow> Comments option" where
  "commentsEnabled opts =
     (case comments opts of None \<Rightarrow> None | Some c \<Rightarrow> if enabled c then Some c else None)"

text \<open>
  The virtual \<open>children\<close> (\<open>localField: _id\<close>, \<open>foreignField: parent\<close>) and
  \<open>populate("children")\<close>: a comment with the comments whose parent it is.
\<close>

type_synonym PopulatedComment = "IComment \<times> IComment list option"

definition childrenOf :: "IComment list \<Rightarrow> IComment \<Rightarrow> IComment list" where
  "childrenOf cmts c = filter (\<lambda>x. parent x = Some (comment_id c)) cmts"

definition populate :: "IComment list \<Rightarrow> IComment \<Rightarrow> PopulatedComment" where
  "populate cmts c = (c, Some (childrenOf cmts c))"

text \<open>
  A filter on the comment collection. The schema of a comment has the paths \<open>title\<close>,
  \<open>body\<close>, \<open>document\<close>, \<open>user\<close>, \<open>parent\<close> and \<open>state\<close>: no stored comment has a path
  \<open>article\<close>, and a filter that asks for a value of it matches no comment.
\<close>

definition matchesFilter :: "ICommentFilter \<Rightarrow> IComment \<Rightarrow> bool" where
  "matchesFilter f c =
     ((case filter_user f of None \<Rightarrow> True | Some u \<Rightarrow> user c = Some u) \<and>
      (case filter_state f of None \<Rightarrow> True | Some s \<Rightarrow> state c = s) \<and>
      (case filter_article f of None \<Rightarrow> True | Some a \<Rightarrow> False))"

text \<open>
  \<open>getDocumentComments\<close>. The identity is resolved with \<open>findDocByIdentity(identity,
  this.CommentModel)\<close>, in the comment collection, whose records have no slug.
\<close>

definition Comment_getDocumentComments ::
    "(string \<Rightarrow> bool) \<Rightarrow> IDocOptions \<Rightarrow> IComment list \<Rightarrow> string \<Rightarrow> int \<Rightarrow> int \<Rightarrow>
     JsError + (PopulatedComment, ECommentMSG) IDocumentResult" where
  "Comment_getDocumentComments isId opts cmts identity pg lim =
     (case commentsEnabled opts of
        None \<Rightarrow> Inl (Error ''comments are disabled'')
      | Some cfg \<Rightarrow>
          let pg1 = ConvertToNaturalNumber pg;
              lim1 = ConvertToNaturalNumber lim;
              skip = (pg1 - 1) * lim1
          in case findDocByIdentity isId comment_id (\<lambda>x. None) identity cmts of
               None \<Rightarrow> Inr (SingleError ''article'' ARTICLE_NOT_FOUND (Status NOT_FOUND))
             | Some d \<Rightarrow>
                 let flt = \<lparr> filter_user = None, filter_state = Some ACCEPTED,
                             filter_article = Some (comment_id d) \<rparr>;
                     found = take lim1 (drop skip (filter (matchesFilter flt) cmts));
                     totalComments = length (filter (matchesFilter flt) cmts)
                 in Inr (Paged (map (populate cmts) found)
                           (getPageData pg1 lim1 totalComments) (Status EStatusCodes.SUCCESS)))"

text \<open>
  \<open>editComment\<close>. \<open>findByIdAndUpdate\<close> is called with \<open>{new: true}\<close>: the result carries
  the record after the update.
\<close>

definition Comment_editComment ::
    "(ERole option \<Rightarrow> ERole option \<Rightarrow> bool) \<Rightarrow> IDocOptions \<Rightarrow> User list \<Rightarrow> IComment list \<Rightarrow>
     string \<Rightarrow> PartialIComment \<Rightarrow> string \<Rightarrow>
     (JsError + (PopulatedComment, ECommentMSG) IDocumentResult) \<times> IComment list" where
  "Comment_editComment permissionsCheck opts users cmts commentId data editorId =
     (case commentsEnabled opts of
        None \<Rightarrow> (Inl (Error ''comments are disabled''), cmts)
      | Some cfg \<Rightarrow>
          (case User_findById users (Some editorId) of
             None \<Rightarrow> (Inr (SingleError ''user'' ECommentMSG.USER_NOT_FOUND (Status CONFLICT)), cmts)
           | Some usr \<Rightarrow>
               let data1 = (if \<not> permissionsCheck (Some (role (canVerify cfg))) (Some (user_role usr))
                            then data \<lparr> upd_state := Some WAITING \<rparr> else data);
                   updated = findByIdAndUpdate comment_id commentId (applyCommentData data1) cmts
               in case map_option (applyCommentData data1) (fst updated) of
                    None \<Rightarrow>
                      (Inr (SingleError ''commentId'' COMMENT_NOT_FOUND (Status NOT_FOUND)),
                       snd updated)
                  | Some newComment \<Rightarrow>
                      (Inr (Success (Some (newComment, None)) ECommentMSG.SUCCESS_EDIT
                              (Status EStatusCodes.SUCCESS)),
                       snd updated)))"

text \<open>
  \<open>deleteComment\<close>. The third component lists the results that the call builds and does
  not return: \<open>this.commentResult.singleError("editor", ...)\<close> stands in the source as a
  statement of its own, without \<open>return\<close>. \<open>comment.deleteOne()\<close> deletes the record with the
  identifier of the comment; the loop updates each populated child by its identifier.
\<close>

definition Comment_deleteComment ::
    "(ERole option \<Rightarrow> ERole option \<Rightarrow> bool) \<Rightarrow> IDocOptions \<Rightarrow> User list \<Rightarrow> IComment list \<Rightarrow>
     string \<Rightarrow> string \<Rightarrow>
     (JsError + (PopulatedComment, ECommentMSG) IDocumentResult) \<times> IComment list \<times>
     (PopulatedComment, ECommentMSG) IDocumentResult list" where
  "Comment_deleteComment permissionsCheck opts users cmts commentId editorId =
     (case commentsEnabled opts of
        None \<Rightarrow> (Inl (Error ''comments are disabled''), cmts, [])
      | Some cfg \<Rightarrow>
          (case User_findById users (Some editorId) of
             None \<Rightarrow>
               (Inr (SingleError ''user'' ECommentMSG.USER_NOT_FOUND (Status CONFLICT)), cmts, [])
           | Some usr \<Rightarrow>
               (case findById comment_id cmts (Some commentId) of
                  None \<Rightarrow>
                    (Inr (SingleError ''commentId'' COMMENT_NOT_FOUND (Status NOT_FOUND)), cmts, [])
                | Some c \<Rightarrow>
                    let kids = childrenOf cmts c;
                        notReturned =
                          (if strictNotEqual (user c) (Some (user_id usr)) \<and>
                              \<not> permissionsCheck (Some (canMange cfg)) (Some (user_role usr))
                           then [SingleError ''editor'' ECommentMSG.NO_PERMISSION (Status FORBIDDEN)]
                           else []);
                        cmts1 = deleteOne (\<lambda>x. comment_id x = comment_id c) cmts;
                        cmts2 = fold (\<lambda>child cs. snd (findByIdAndUpdate comment_id (comment_id child)
                                                        (\<lambda>x. x \<lparr> state := PARENT_DELETED \<rparr>) cs))
                                  kids cmts1
                    in (Inr (Success (Some (c, Some kids)) ECommentMSG.SUCCESS_DELETE
                               (Status EStatusCodes.SUCCESS)),
                        cmts2, notReturned))))"

section \<open>Derived notions and sample data\<close>

text \<open>The three components of what a write operation returns.\<close>

abbreviation resultOf :: "'r \<times> 's \<times> 'c \<Rightarrow> 'r" where
  "resultOf r \<equiv> fst r"

abbreviation storedAfter :: "'r \<times> 's \<times> 'c \<Rightarrow> 's" where
  "storedAfter r \<equiv> fst (snd r)"

abbreviation checksOf :: "'r \<times> 's \<times> 'c \<Rightarrow> 'c" where
  "checksOf r \<equiv> snd (snd r)"

text \<open>The fixed order of the checks, and the error that each check returns when it fails.\<close>

definition checkOrder :: "check list" where
  "checkOrder = [DocumentExists, ActorGiven, ActorExists, RolePermission, Ownership,
                 NewAuthorExists, NewAuthorPermission]"

fun checkError :: "check \<Rightarrow> string \<times> EDocumentMSG \<times> StatusArg" where
  "checkError DocumentExists = (''document'', DOCUMENT_NOT_FOUND, NoStatus)"
| "checkError ActorGiven = (''user'', AUTHOR_NOT_FOUND, NoStatus)"
| "checkError ActorExists = (''user'', EDocumentMSG.USER_NOT_FOUND, NoStatus)"
| "checkError RolePermission = (''user'', EDocumentMSG.NO_PERMISSION, NoStatus)"
| "checkError Ownership = (''user'', EDocumentMSG.NO_PERMISSION, NoStatus)"
| "checkError NewAuthorExists = (''new_author'', EDocumentMSG.USER_NOT_FOUND, Status NOT_FOUND)"
| "checkError NewAuthorPermission = (''new_author'', NEW_AUTHOR_IS_NOT_VALID, NoStatus)"

text \<open>
  The comment collection after the comment \<open>cid\<close> is deleted and its direct children are
  marked: the closed form of the delete and the loop of \<open>deleteComment\<close>.
\<close>

definition cascaded :: "string \<Rightarrow> IComment list \<Rightarrow> IComment list" where
  "cascaded cid cmts =
     map (\<lambda>x. if parent x = Some cid then x \<lparr> state := PARENT_DELETED \<rparr> else x)
       (filter (\<lambda>x. comment_id x \<noteq> cid) cmts)"

text \<open>
  Modelled from the spec: \<open>permissionsCheck\<close> as section 4.1 describes it, for the concrete
  instances below. The actor satisfies the required role when the actor's rank is at least
  the required rank; an undefined role has no rank. The rank puts the guest below the seller
  and the seller below every other role.
\<close>

definition roleSatisfies :: "(ERole \<Rightarrow> nat) \<Rightarrow> ERole option \<Rightarrow> ERole option \<Rightarrow> bool" where
  "roleSatisfies rank required actor =
     (case required of None \<Rightarrow> False
      | Some r \<Rightarrow> (case actor of None \<Rightarrow> False | Some a \<Rightarrow> rank r \<le> rank a))"

fun rankOf :: "ERole \<Rightarrow> nat" where
  "rankOf GEST = 0"
| "rankOf SELLER = 1"
| "rankOf (OtherRole r) = 2"

text \<open>The identifier format of the instances: 24 hexadecimal digits.\<close>

definition isObjectId :: "string \<Rightarrow> bool" where
  "isObjectId s = (length s = 24 \<and> list_all (\<lambda>c. c \<in> set ''0123456789abcdef'') s)"

text \<open>Three users, one of each rank.\<close>

definition userGuest :: User where
  "userGuest = \<lparr> user_id = ''aaaaaaaaaaaaaaaaaaaaaa01'', user_role = GEST \<rparr>"

definition userSeller :: User where
  "userSeller = \<lparr> user_id = ''aaaaaaaaaaaaaaaaaaaaaa02'', user_role = SELLER \<rparr>"

definition userAdmin :: User where
  "userAdmin = \<lparr> user_id = ''aaaaaaaaaaaaaaaaaaaaaa03'', user_role = OtherRole ''admin'' \<rparr>"

definition sampleUsers :: "User list" where
  "sampleUsers = [userGuest, userSeller, userAdmin]"

text \<open>
  Four document kinds: \<open>sampleOpts\<close> has comments, a seller-level edit policy that is not
  public and a public seller-level delete policy; \<open>openOpts\<close> lets everybody edit every
  document; \<open>guestOpts\<close> sets the shorthand \<open>write\<close> to the guest role; \<open>memberOpts\<close> sets
  the shorthand \<open>read\<close> to the seller role.
\<close>

definition sampleComments :: Comments where
  "sampleComments = \<lparr> enabled = True, canWrite = GEST, needToVerify = True,
     canVerify = \<lparr> role = SELLER, public = True \<rparr>, canMange = OtherRole ''admin'' \<rparr>"

definition sampleOpts :: IDocOptions where
  "sampleOpts = Doc_constructor \<lparr> docName = ''Post'', slugBase = Some ''title'',
     permissions = Some \<lparr> readRole = None, writeRole = None,
       advance = Some \<lparr> getAll = None, getOne = None, create = None,
         edit = Some \<lparr> role = SELLER, public = False \<rparr>,
         delete = Some \<lparr> role = SELLER, public = True \<rparr>, getDrafts = None \<rparr> \<rparr>,
     comments = Some sampleComments \<rparr>"

definition openOpts :: IDocOptions where
  "openOpts = Doc_constructor \<lparr> docName = ''Wiki'', slugBase = Some ''title'',
     permissions = Some \<lparr> readRole = None, writeRole = None,
       advance = Some \<lparr> getAll = None, getOne = None, create = None,
         edit = Some \<lparr> role = GEST, public = True \<rparr>, delete = None, getDrafts = None \<rparr> \<rparr>,
     comments = None \<rparr>"

definition guestOpts :: IDocOptions where
  "guestOpts = Doc_constructor \<lparr> docName = ''Board'', slugBase = None,
     permissions = Some \<lparr> readRole = None, writeRole = Some GEST, advance = None \<rparr>,
     comments = None \<rparr>"

definition memberOpts :: IDocOptions where
  "memberOpts = Doc_constructor \<lparr> docName = ''Note'', slugBase = None,
     permissions = Some \<lparr> readRole = Some SELLER, writeRole = None, advance = None \<rparr>,
     comments = None \<rparr>"

text \<open>Two documents, the first of the admin and the second of the seller.\<close>

definition docFirst :: "string IModel" where
  "docFirst = \<lparr> doc_id = ''dddddddddddddddddddddd01'', slug = Some ''first'',
     doc_state = PUBLISHED, authorId = Some ''aaaaaaaaaaaaaaaaaaaaaa03'', content = ''one'' \<rparr>"

definition docSecond :: "string IModel" where
  "docSecond = \<lparr> doc_id = ''dddddddddddddddddddddd02'', slug = Some ''second'',
     doc_state = DRAFT, authorId = Some ''aaaaaaaaaaaaaaaaaaaaaa02'', content = ''two'' \<rparr>"

definition sampleDocs :: "string IModel list" where
  "sampleDocs = [docFirst, docSecond]"

text \<open>
  Four accepted comments on the first document: a root, its two children \<open>cmtX\<close> and
  \<open>cmtY\<close>, and \<open>cmtG\<close>, a child of \<open>cmtX\<close>.
\<close>

definition cmtRoot :: IComment where
  "cmtRoot = \<lparr> comment_id = ''cccccccccccccccccccccc01'', title = ''root'', body = ''b'',
     document = ''dddddddddddddddddddddd01'', user = Some ''aaaaaaaaaaaaaaaaaaaaaa02'',
     parent = None, state = ACCEPTED \<rparr>"

definition cmtX :: IComment where
  "cmtX = \<lparr> comment_id = ''cccccccccccccccccccccc02'', title = ''x'', body = ''b'',
     document = ''dddddddddddddddddddddd01'', user = Some ''aaaaaaaaaaaaaaaaaaaaaa01'',
     parent = Some ''cccccccccccccccccccccc01'', state = ACCEPTED \<rparr>"

definition cmtY :: IComment where
  "cmtY = \<lparr> comment_id = ''cccccccccccccccccccccc03'', title = ''y'', body = ''b'',
     document = ''dddddddddddddddddddddd01'', user = Some ''aaaaaaaaaaaaaaaaaaaaaa03'',
     parent = Some ''cccccccccccccccccccccc01'', state = ACCEPTED \<rparr>"

definition cmtG :: IComment where
  "cmtG = \<lparr> comment_id = ''cccccccccccccccccccccc04'', title = ''g'', body = ''b'',
     document = ''dddddddddddddddddddddd01'', user = Some ''aaaaaaaaaaaaaaaaaaaaaa02'',
     parent = Some ''cccccccccccccccccccccc02'', state = ACCEPTED \<rparr>"

definition sampleCmts :: "IComment list" where
  "sampleCmts = [cmtRoot, cmtX, cmtY, cmtG]"

text \<open>
  Three payloads of \<open>edit\<close> that reassign the author: to an identifier that no user has, to
  the guest, and to the seller.
\<close>

definition toUnknownAuthor :: "string PartialIModel" where
  "toUnknownAuthor = \<lparr> new_slug = None, new_state = None,
     new_authorId = Some (Some ''aaaaaaaaaaaaaaaaaaaaaa09''), new_content = None \<rparr>"

definition toGuestAuthor :: "string PartialIModel" where
  "toGuestAuthor = \<lparr> new_slug = None, new_state = None,
     new_authorId = Some (Some ''aaaaaaaaaaaaaaaaaaaaaa01''), new_content = None \<rparr>"


section \<open>Permission normalisation\<close>

lemma nullish_precedence: "nullish a (nullish b c) = precedence a b c"
  by (cases a; cases b) (simp_all add: nullish_def)

lemma nullish_precedencePair:
  "nullish a \<lparr> role = nullish b c, public = pub \<rparr> = precedencePair a b c pub"
  by (cases a; cases b) (simp_all add: nullish_def)

lemma populated_processPermissions: "populated (processPermissions p)"
  by (simp add: populated_def processPermissions_def Let_def)

text \<open>
  C8. For every raw configuration the constructor fills each advance-permission field by the
  precedence explicit advance field, else shorthand, else default: \<open>getAll\<close> and \<open>getOne\<close>
  fall back to \<open>read\<close> and then to the guest role; \<open>create\<close>, \<open>edit\<close>, \<open>delete\<close> and
  \<open>getDrafts\<close> fall back to \<open>write\<close> and then to \<open>SELLER\<close>; and every advance field of the
  constructed configuration is populated.
\<close>

theorem constructor_fills_by_precedence:
  fixes opts :: IDocOptions
  defines "raw \<equiv> permissions opts"
  defines "adv \<equiv> Option.bind raw advance"
  defines "rd \<equiv> Option.bind raw readRole"
  defines "wr \<equiv> Option.bind raw writeRole"
  shows "\<exists>p a. permissions (Doc_constructor opts) = Some p \<and> advance p = Some a \<and>
           populated p \<and>
           getAll a = Some (precedence (Option.bind adv getAll) rd GEST) \<and>
           getOne a = Some (precedence (Option.bind adv getOne) rd GEST) \<and>
           create a = Some (precedence (Option.bind adv create) wr SELLER) \<and>
           edit a = Some (precedencePair (Option.bind adv edit) wr SELLER True) \<and>
           delete a = Some (precedencePair (Option.bind adv delete) wr SELLER False) \<and>
           getDrafts a = Some (precedencePair (Option.bind adv getDrafts) wr SELLER True)"
  unfolding raw_def adv_def rd_def wr_def
  by (simp add: Doc_constructor_def populated_processPermissions)
     (simp add: processPermissions_def Let_def nullish_precedence nullish_precedencePair)

text \<open>
  C9. Permission normalisation is idempotent: a permission block whose advance fields are all
  populated is left unchanged by the constructor's normalisation, and normalising twice is
  normalising once, for every raw configuration.
\<close>

theorem processPermissions_idempotent:
  "(populated p \<longrightarrow> processPermissions (Some p) = p) \<and>
   processPermissions (Some (processPermissions raw)) = processPermissions raw \<and>
   Doc_constructor (Doc_constructor opts) = Doc_constructor opts"
proof -
  have fixp: "processPermissions (Some q) = q" if "populated q" for q
  proof -
    from that obtain a where a: "advance q = Some a"
      and f: "getAll a \<noteq> None" "getOne a \<noteq> None" "create a \<noteq> None"
             "edit a \<noteq> None" "delete a \<noteq> None" "getDrafts a \<noteq> None"
      by (auto simp: populated_def split: option.splits)
    from f have "\<lparr> getAll = Some (nullish (getAll a) (nullish (readRole q) GEST)),
               getOne = Some (nullish (getOne a) (nullish (readRole q) GEST)),
               create = Some (nullish (create a) (nullish (writeRole q) SELLER)),
               edit = Some (nullish (edit a) \<lparr> role = nullish (writeRole q) SELLER, public = True \<rparr>),
               delete = Some (nullish (delete a) \<lparr> role = nullish (writeRole q) SELLER, public = False \<rparr>),
               getDrafts = Some (nullish (getDrafts a) \<lparr> role = nullish (writeRole q) SELLER, public = True \<rparr>) \<rparr>
             = a"
      by (auto simp: nullish_def)
    with a show ?thesis
      by (simp add: processPermissions_def Let_def)
  qed
  have twice: "processPermissions (Some (processPermissions r)) = processPermissions r" for r
    by (rule fixp) (rule populated_processPermissions)
  show ?thesis
    using fixp [of p] twice by (simp add: Doc_constructor_def)
qed

theorem processPermissions_idempotent_witness:
  "populated \<lparr> readRole = None, writeRole = Some (OtherRole ''admin''),
       advance = Some \<lparr> getAll = Some GEST, getOne = Some GEST, create = Some SELLER,
         edit = Some \<lparr> role = SELLER, public = False \<rparr>,
         delete = Some \<lparr> role = OtherRole ''admin'', public = True \<rparr>,
         getDrafts = Some \<lparr> role = GEST, public = True \<rparr> \<rparr> \<rparr> \<and>
   processPermissions (Some \<lparr> readRole = None, writeRole = Some (OtherRole ''admin''),
       advance = Some \<lparr> getAll = Some GEST, getOne = Some GEST, create = Some SELLER,
         edit = Some \<lparr> role = SELLER, public = False \<rparr>,
         delete = Some \<lparr> role = OtherRole ''admin'', public = True \<rparr>,
         getDrafts = Some \<lparr> role = GEST, public = True \<rparr> \<rparr> \<rparr>)
   = \<lparr> readRole = None, writeRole = Some (OtherRole ''admin''),
       advance = Some \<lparr> getAll = Some GEST, getOne = Some GEST, create = Some SELLER,
         edit = Some \<lparr> role = SELLER, public = False \<rparr>,
         delete = Some \<lparr> role = OtherRole ''admin'', public = True \<rparr>,
         getDrafts = Some \<lparr> role = GEST, public = True \<rparr> \<rparr> \<rparr>"
proof -
  have h: "populated \<lparr> readRole = None, writeRole = Some (OtherRole ''admin''),
       advance = Some \<lparr> getAll = Some GEST, getOne = Some GEST, create = Some SELLER,
         edit = Some \<lparr> role = SELLER, public = False \<rparr>,
         delete = Some \<lparr> role = OtherRole ''admin'', public = True \<rparr>,
         getDrafts = Some \<lparr> role = GEST, public = True \<rparr> \<rparr> \<rparr>"
    by (simp add: populated_def)
  from processPermissions_idempotent have
    "populated p \<longrightarrow> processPermissions (Some p) = p" for p
    by blast
  with h show ?thesis by blast
qed

section \<open>Facts about the sample data\<close>

lemmas sample_defs = isObjectId_def userGuest_def userSeller_def userAdmin_def sampleUsers_def
  sampleComments_def docFirst_def docSecond_def sampleDocs_def
  cmtRoot_def cmtX_def cmtY_def cmtG_def sampleCmts_def roleSatisfies_def

lemma sampleOpts_advance:
  "advanceOf sampleOpts = Some \<lparr> getAll = Some GEST, getOne = Some GEST, create = Some SELLER,
      edit = Some \<lparr> role = SELLER, public = False \<rparr>,
      delete = Some \<lparr> role = SELLER, public = True \<rparr>,
      getDrafts = Some \<lparr> role = SELLER, public = True \<rparr> \<rparr>"
  by (simp add: sampleOpts_def Doc_constructor_def advanceOf_def processPermissions_def
      nullish_def Let_def)

lemma openOpts_advance:
  "advanceOf openOpts = Some \<lparr> getAll = Some GEST, getOne = Some GEST, create = Some SELLER,
      edit = Some \<lparr> role = GEST, public = True \<rparr>,
      delete = Some \<lparr> role = SELLER, public = False \<rparr>,
      getDrafts = Some \<lparr> role = SELLER, public = True \<rparr> \<rparr>"
  by (simp add: openOpts_def Doc_constructor_def advanceOf_def processPermissions_def
      nullish_def Let_def)

lemma guestOpts_advance:
  "advanceOf guestOpts = Some \<lparr> getAll = Some GEST, getOne = Some GEST, create = Some GEST,
      edit = Some \<lparr> role = GEST, public = True \<rparr>,
      delete = Some \<lparr> role = GEST, public = False \<rparr>,
      getDrafts = Some \<lparr> role = GEST, public = True \<rparr> \<rparr>"
  by (simp add: guestOpts_def Doc_constructor_def advanceOf_def processPermissions_def
      nullish_def Let_def)

lemma memberOpts_advance:
  "advanceOf memberOpts = Some \<lparr> getAll = Some SELLER, getOne = Some SELLER, create = Some SELLER,
      edit = Some \<lparr> role = SELLER, public = True \<rparr>,
      delete = Some \<lparr> role = SELLER, public = False \<rparr>,
      getDrafts = Some \<lparr> role = SELLER, public = True \<rparr> \<rparr>"
  by (simp add: memberOpts_def Doc_constructor_def advanceOf_def processPermissions_def
      nullish_def Let_def)

lemma sampleOpts_comments: "commentsEnabled sampleOpts = Some sampleComments"
  by (simp add: sampleOpts_def Doc_constructor_def commentsEnabled_def sampleComments_def)

lemma sampleCmts_distinct: "distinct (map comment_id sampleCmts)"
  by (simp add: sample_defs)

section \<open>The gate of getAll\<close>

text \<open>
  C10. When the \<open>getAll\<close> action requires more than the guest role and a (non-empty)
  \<open>userId\<close> is supplied that no user of the directory has, \<open>getAll\<close> hands the undefined
  role to \<open>permissionsCheck\<close>; when that check rejects an undefined role the result is the
  error "no permission". The error "user not found" is returned exactly when the action
  requires more than the guest role and \<open>userId\<close> is absent (undefined or empty, the values
  that \<open>!userId\<close> accepts).
\<close>

theorem getAll_unknown_user_is_no_permission:
  "(Option.bind (advanceOf opts) getAll \<noteq> Some GEST \<and> userId = Some u \<and> u \<noteq> [] \<and>
    User_findById users (Some u) = None \<and>
    \<not> permissionsCheck (Option.bind (advanceOf opts) getAll) None
    \<longrightarrow> Doc_getAll permissionsCheck sortBy opts users docs pg lim sortArg userId =
          SingleError ''user'' EDocumentMSG.NO_PERMISSION NoStatus) \<and>
   (Doc_getAll permissionsCheck sortBy opts users docs pg lim sortArg userId =
      SingleError ''user'' EDocumentMSG.USER_NOT_FOUND NoStatus
    \<longleftrightarrow> Option.bind (advanceOf opts) getAll \<noteq> Some GEST \<and> falsy userId)"
proof (intro conjI impI)
  assume h: "Option.bind (advanceOf opts) getAll \<noteq> Some GEST \<and> userId = Some u \<and> u \<noteq> [] \<and>
             User_findById users (Some u) = None \<and>
             \<not> permissionsCheck (Option.bind (advanceOf opts) getAll) None"
  then have "\<not> falsy userId"
    by (simp add: falsy_def)
  with h show "Doc_getAll permissionsCheck sortBy opts users docs pg lim sortArg userId =
                 SingleError ''user'' EDocumentMSG.NO_PERMISSION NoStatus"
    by (simp add: Doc_getAll_def Let_def)
next
  show "Doc_getAll permissionsCheck sortBy opts users docs pg lim sortArg userId =
          SingleError ''user'' EDocumentMSG.USER_NOT_FOUND NoStatus
        \<longleftrightarrow> Option.bind (advanceOf opts) getAll \<noteq> Some GEST \<and> falsy userId"
    by (simp add: Doc_getAll_def Let_def)
qed

theorem getAll_unknown_user_is_no_permission_witness:
  "Option.bind (advanceOf memberOpts) getAll \<noteq> Some GEST \<and>
   User_findById sampleUsers (Some ''aaaaaaaaaaaaaaaaaaaaaa09'') = None \<and>
   \<not> roleSatisfies rankOf (Option.bind (advanceOf memberOpts) getAll) None \<and>
   Doc_getAll (roleSatisfies rankOf) (\<lambda>order xs. xs) memberOpts sampleUsers sampleDocs 1 10 None
       (Some ''aaaaaaaaaaaaaaaaaaaaaa09'') =
     SingleError ''user'' EDocumentMSG.NO_PERMISSION NoStatus \<and>
   Doc_getAll (roleSatisfies rankOf) (\<lambda>order xs. xs) memberOpts sampleUsers sampleDocs 1 10 None None =
     SingleError ''user'' EDocumentMSG.USER_NOT_FOUND NoStatus"
proof -
  have h1: "Option.bind (advanceOf memberOpts) getAll \<noteq> Some GEST"
    by (simp add: memberOpts_advance)
  have h2: "User_findById sampleUsers (Some ''aaaaaaaaaaaaaaaaaaaaaa09'') = None"
    by (simp add: User_findById_def findById_def sample_defs)
  have h3: "\<not> roleSatisfies rankOf (Option.bind (advanceOf memberOpts) getAll) None"
    by (simp add: memberOpts_advance roleSatisfies_def)
  have h4: "falsy None"
    by (simp add: falsy_def)
  from h1 h2 h3
    getAll_unknown_user_is_no_permission [of memberOpts "Some ''aaaaaaaaaaaaaaaaaaaaaa09''"
      "''aaaaaaaaaaaaaaaaaaaaaa09''" sampleUsers "roleSatisfies rankOf" "\<lambda>order xs. xs" sampleDocs
      1 10 None]
  have a: "Doc_getAll (roleSatisfies rankOf) (\<lambda>order xs. xs) memberOpts sampleUsers sampleDocs 1 10
             None (Some ''aaaaaaaaaaaaaaaaaaaaaa09'') =
           SingleError ''user'' EDocumentMSG.NO_PERMISSION NoStatus"
    by simp
  from h1 h4
    getAll_unknown_user_is_no_permission [of memberOpts None "''aaaaaaaaaaaaaaaaaaaaaa09''"
      sampleUsers "roleSatisfies rankOf" "\<lambda>order xs. xs" sampleDocs 1 10 None]
  have b: "Doc_getAll (roleSatisfies rankOf) (\<lambda>order xs. xs) memberOpts sampleUsers sampleDocs 1 10
             None None =
           SingleError ''user'' EDocumentMSG.USER_NOT_FOUND NoStatus"
    by simp
  from h1 h2 h3 a b show ?thesis by blast
qed

section \<open>Editing a comment\<close>

lemma find_updateOne:
  "find P xs = Some x \<Longrightarrow> P (f x) \<Longrightarrow> find P (updateOne P f xs) = Some (f x)"
  by (induction xs) (auto split: if_splits)

lemma applyCommentData_waiting:
  "state (applyCommentData (d \<lparr> upd_state := Some WAITING \<rparr>) x) = WAITING"
  by (simp add: applyCommentData_def nullish_def)

lemma applyCommentData_id: "comment_id (applyCommentData d x) = comment_id x"
  by (simp add: applyCommentData_def)

text \<open>
  C4. For every resolvable editor whose role does not satisfy the \<open>canVerify\<close> role and
  every existing comment, \<open>editComment\<close> stores the comment with state \<open>WAITING\<close>, whatever
  state the payload carries, and returns the stored comment in a success result.
\<close>

theorem editComment_forces_waiting:
  assumes "commentsEnabled opts = Some cfg"
    and "User_findById users (Some editorId) = Some usr"
    and "\<not> permissionsCheck (Some (role (canVerify cfg))) (Some (user_role usr))"
    and "findById comment_id cmts (Some commentId) = Some c"
  shows "\<exists>stored.
           findById comment_id
             (snd (Comment_editComment permissionsCheck opts users cmts commentId data editorId))
             (Some commentId) = Some stored \<and>
           state stored = WAITING \<and>
           stored = applyCommentData (data \<lparr> upd_state := Some WAITING \<rparr>) c \<and>
           fst (Comment_editComment permissionsCheck opts users cmts commentId data editorId) =
             Inr (Success (Some (stored, None)) ECommentMSG.SUCCESS_EDIT
                    (Status EStatusCodes.SUCCESS))"
proof -
  let ?d = "data \<lparr> upd_state := Some WAITING \<rparr>"
  from assms(4) have found: "find (\<lambda>x. comment_id x = commentId) cmts = Some c"
    by (simp add: findById_def)
  then have cid: "comment_id c = commentId"
    by (auto simp: find_Some_iff)
  have after: "find (\<lambda>x. comment_id x = commentId)
                 (updateOne (\<lambda>x. comment_id x = commentId) (applyCommentData ?d) cmts)
               = Some (applyCommentData ?d c)"
    using found cid by (intro find_updateOne) (simp_all add: applyCommentData_id)
  show ?thesis
    using assms(1-3) found after
    by (simp add: Comment_editComment_def findByIdAndUpdate_def findById_def Let_def
        applyCommentData_waiting)
qed

theorem editComment_forces_waiting_witness:
  "commentsEnabled sampleOpts = Some sampleComments \<and>
   User_findById sampleUsers (Some ''aaaaaaaaaaaaaaaaaaaaaa01'') = Some userGuest \<and>
   \<not> roleSatisfies rankOf (Some (role (canVerify sampleComments))) (Some (user_role userGuest)) \<and>
   findById comment_id sampleCmts (Some ''cccccccccccccccccccccc02'') = Some cmtX \<and>
   findById comment_id
     (snd (Comment_editComment (roleSatisfies rankOf) sampleOpts sampleUsers sampleCmts
             ''cccccccccccccccccccccc02''
             \<lparr> upd_title = None, upd_body = None, upd_document = None, upd_user = None,
               upd_parent = None, upd_state = Some ACCEPTED \<rparr>
             ''aaaaaaaaaaaaaaaaaaaaaa01''))
     (Some ''cccccccccccccccccccccc02'') = Some (cmtX \<lparr> state := WAITING \<rparr>)"
proof -
  have h1: "commentsEnabled sampleOpts = Some sampleComments"
    by (rule sampleOpts_comments)
  have h2: "User_findById sampleUsers (Some ''aaaaaaaaaaaaaaaaaaaaaa01'') = Some userGuest"
    by (simp add: User_findById_def findById_def sample_defs)
  have h3: "\<not> roleSatisfies rankOf (Some (role (canVerify sampleComments)))
               (Some (user_role userGuest))"
    by (simp add: sample_defs)
  have h4: "findById comment_id sampleCmts (Some ''cccccccccccccccccccccc02'') = Some cmtX"
    by (simp add: findById_def sample_defs)
  have "applyCommentData
          \<lparr> upd_title = None, upd_body = None, upd_document = None, upd_user = None,
            upd_parent = None, upd_state = Some WAITING \<rparr> cmtX = cmtX \<lparr> state := WAITING \<rparr>"
    by (simp add: applyCommentData_def nullish_def)
  with editComment_forces_waiting [where permissionsCheck = "roleSatisfies rankOf" and
      data = "\<lparr> upd_title = None, upd_body = None, upd_document = None, upd_user = None,
               upd_parent = None, upd_state = Some ACCEPTED \<rparr>", OF h1 h2 h3 h4]
    h1 h2 h3 h4
  show ?thesis by auto
qed

section \<open>Deleting a comment\<close>

lemma deleteOne_distinct:
  "distinct (map key xs) \<Longrightarrow> deleteOne (\<lambda>x. key x = i) xs = filter (\<lambda>x. key x \<noteq> i) xs"
proof (induction xs)
  case Nil
  then show ?case by simp
next
  case (Cons a xs)
  show ?case
  proof (cases "key a = i")
    case True
    with Cons.prems have "i \<notin> key ` set xs" by simp
    then have "\<forall>x\<in>set xs. key x \<noteq> i" by blast
    then have "filter (\<lambda>x. key x \<noteq> i) xs = xs" by (simp add: filter_id_conv)
    with True show ?thesis by simp
  next
    case False
    with Cons show ?thesis by simp
  qed
qed

lemma updateOne_distinct:
  "distinct (map key xs) \<Longrightarrow>
   updateOne (\<lambda>x. key x = i) f xs = map (\<lambda>x. if key x = i then f x else x) xs"
proof (induction xs)
  case Nil
  then show ?case by simp
next
  case (Cons a xs)
  show ?case
  proof (cases "key a = i")
    case True
    with Cons.prems have "i \<notin> key ` set xs" by simp
    then have "\<forall>x\<in>set xs. key x \<noteq> i" by blast
    then have "map (\<lambda>x. if key x = i then f x else x) xs = xs" by (simp add: map_idI)
    with True show ?thesis by simp
  next
    case False
    with Cons show ?thesis by simp
  qed
qed

text \<open>The loop over the children marks exactly the stored comments with a child's identifier.\<close>

lemma cascade_fold:
  "distinct (map comment_id cs) \<Longrightarrow>
   fold (\<lambda>child cs. snd (findByIdAndUpdate comment_id (comment_id child)
                           (\<lambda>x. x \<lparr> state := PARENT_DELETED \<rparr>) cs)) kids cs
   = map (\<lambda>x. if comment_id x \<in> comment_id ` set kids then x \<lparr> state := PARENT_DELETED \<rparr> else x) cs"
proof (induction kids arbitrary: cs)
  case Nil
  then show ?case by simp
next
  case (Cons k kids)
  let ?step = "map (\<lambda>x. if comment_id x = comment_id k then x \<lparr> state := PARENT_DELETED \<rparr> else x) cs"
  have ids: "map comment_id ?step = map comment_id cs"
    by (induction cs) auto
  with Cons.prems have d: "distinct (map comment_id ?step)" by (simp only:)
  have "snd (findByIdAndUpdate comment_id (comment_id k) (\<lambda>x. x \<lparr> state := PARENT_DELETED \<rparr>) cs) = ?step"
    using Cons.prems by (simp add: findByIdAndUpdate_def updateOne_distinct)
  then show ?case
    using Cons.IH [OF d] by (auto simp: o_def)
qed

lemma deleteComment_storage:
  assumes d: "distinct (map comment_id cmts)"
    and c: "c \<in> set cmts"
  shows "fold (\<lambda>child cs. snd (findByIdAndUpdate comment_id (comment_id child)
                           (\<lambda>x. x \<lparr> state := PARENT_DELETED \<rparr>) cs))
           (childrenOf cmts c) (deleteOne (\<lambda>x. comment_id x = comment_id c) cmts)
         = cascaded (comment_id c) cmts"
proof -
  let ?rest = "filter (\<lambda>x. comment_id x \<noteq> comment_id c) cmts"
  have del: "deleteOne (\<lambda>x. comment_id x = comment_id c) cmts = ?rest"
    using d by (rule deleteOne_distinct)
  have dr: "distinct (map comment_id ?rest)"
    using d by (simp add: distinct_map_filter)
  have same: "x = y" if "x \<in> set cmts" "y \<in> set cmts" "comment_id x = comment_id y" for x y
    using d that by (meson distinct_map inj_onD)
  have kid: "comment_id x \<in> comment_id ` set (childrenOf cmts c) \<longleftrightarrow> parent x = Some (comment_id c)"
    if "x \<in> set ?rest" for x
    using that same by (auto simp: childrenOf_def)
  show ?thesis
    unfolding del cascade_fold [OF dr] cascaded_def
    by (rule map_cong) (simp_all add: kid)
qed

lemma findById_Some:
  "findById key xs (Some i) = Some x \<Longrightarrow> x \<in> set xs \<and> key x = i"
  by (auto simp: findById_def find_Some_iff)

text \<open>
  What \<open>deleteComment\<close> returns once the editor and the comment are found. The author test
  of the source holds for every editor, so the error is built whenever the editor does not
  satisfy the \<open>canMange\<close> role.
\<close>

lemma deleteComment_run:
  assumes "commentsEnabled opts = Some cfg"
    and "User_findById users (Some editorId) = Some usr"
    and "findById comment_id cmts (Some commentId) = Some c"
    and "distinct (map comment_id cmts)"
  shows "Comment_deleteComment permissionsCheck opts users cmts commentId editorId =
           (Inr (Success (Some (c, Some (childrenOf cmts c))) ECommentMSG.SUCCESS_DELETE
                   (Status EStatusCodes.SUCCESS)),
            cascaded commentId cmts,
            if \<not> permissionsCheck (Some (canMange cfg)) (Some (user_role usr))
            then [SingleError ''editor'' ECommentMSG.NO_PERMISSION (Status FORBIDDEN)] else [])"
proof -
  from assms(3) have c: "c \<in> set cmts" and cid: "comment_id c = commentId"
    by (auto dest: findById_Some)
  show ?thesis
    using assms(1-3) deleteComment_storage [OF assms(4) c]
    by (simp add: Comment_deleteComment_def Let_def cid strictNotEqual_def)
qed

lemma deleteComment_success:
  assumes "Comment_deleteComment permissionsCheck opts users cmts commentId editorId =
             (Inr (Success d m s), cmts', nr)"
  shows "\<exists>cfg usr c. commentsEnabled opts = Some cfg \<and>
           User_findById users (Some editorId) = Some usr \<and>
           findById comment_id cmts (Some commentId) = Some c"
  using assms
  by (auto simp: Comment_deleteComment_def Let_def split: option.splits)

lemma cascaded_gone: "\<forall>x\<in>set (cascaded cid cmts). comment_id x \<noteq> cid"
  by (auto simp: cascaded_def)

lemma cascaded_findById: "findById comment_id (cascaded cid cmts) (Some cid) = None"
  using cascaded_gone [of cid cmts] by (simp add: findById_def find_None_iff)

lemma cascaded_children:
  "\<forall>x\<in>set (cascaded cid cmts). parent x = Some cid \<longrightarrow> state x = PARENT_DELETED"
  by (auto simp: cascaded_def)

lemma cascaded_child:
  "x \<in> set cmts \<Longrightarrow> parent x = Some cid \<Longrightarrow> comment_id x \<noteq> cid \<Longrightarrow>
   x \<lparr> state := PARENT_DELETED \<rparr> \<in> set (cascaded cid cmts)"
  by (force simp: cascaded_def)

lemma cascaded_other:
  "x \<in> set cmts \<Longrightarrow> parent x \<noteq> Some cid \<Longrightarrow> comment_id x \<noteq> cid \<Longrightarrow>
   x \<in> set (cascaded cid cmts)"
  by (force simp: cascaded_def)

lemma sampleCmts_cascaded:
  "cascaded ''cccccccccccccccccccccc01'' sampleCmts =
     [cmtX \<lparr> state := PARENT_DELETED \<rparr>, cmtY \<lparr> state := PARENT_DELETED \<rparr>, cmtG]"
  by (simp add: cascaded_def sample_defs)

lemma sampleCmts_cascaded_X:
  "cascaded ''cccccccccccccccccccccc02'' sampleCmts =
     [cmtRoot, cmtY, cmtG \<lparr> state := PARENT_DELETED \<rparr>]"
  by (simp add: cascaded_def sample_defs)

lemma sample_delete_root:
  "Comment_deleteComment (roleSatisfies rankOf) sampleOpts sampleUsers sampleCmts
       ''cccccccccccccccccccccc01'' ''aaaaaaaaaaaaaaaaaaaaaa03'' =
     (Inr (Success (Some (cmtRoot, Some [cmtX, cmtY])) ECommentMSG.SUCCESS_DELETE
             (Status EStatusCodes.SUCCESS)),
      [cmtX \<lparr> state := PARENT_DELETED \<rparr>, cmtY \<lparr> state := PARENT_DELETED \<rparr>, cmtG],
      [])"
proof -
  have u: "User_findById sampleUsers (Some ''aaaaaaaaaaaaaaaaaaaaaa03'') = Some userAdmin"
    by (simp add: User_findById_def findById_def sample_defs)
  have c: "findById comment_id sampleCmts (Some ''cccccccccccccccccccccc01'') = Some cmtRoot"
    by (simp add: findById_def sample_defs)
  have k: "childrenOf sampleCmts cmtRoot = [cmtX, cmtY]"
    by (simp add: childrenOf_def sample_defs)
  have p: "roleSatisfies rankOf (Some (canMange sampleComments)) (Some (user_role userAdmin))"
    by (simp add: sample_defs)
  show ?thesis
    using deleteComment_run [OF sampleOpts_comments u c sampleCmts_distinct, of "roleSatisfies rankOf"] p
    by (simp add: k sampleCmts_cascaded)
qed

text \<open>
  C3. After a successful \<open>deleteComment\<close> of the comment \<open>commentId\<close> (identifiers being
  unique in the collection), no stored comment has that identifier; every direct child, that
  is every comment whose parent reference is \<open>commentId\<close>, is stored with state
  \<open>PARENT_DELETED\<close>; and the children of those children, like every other comment that is
  neither the deleted one nor one of its direct children, are stored unchanged.
\<close>

theorem deleteComment_cascade_one_level:
  assumes "distinct (map comment_id cmts)"
    and "Comment_deleteComment permissionsCheck opts users cmts commentId editorId =
           (Inr (Success d m s), cmts', nr)"
  shows "(\<forall>x\<in>set cmts'. comment_id x \<noteq> commentId) \<and>
         findById comment_id cmts' (Some commentId) = None \<and>
         (\<forall>x\<in>set cmts'. parent x = Some commentId \<longrightarrow> state x = PARENT_DELETED) \<and>
         (\<forall>x\<in>set cmts. parent x = Some commentId \<and> comment_id x \<noteq> commentId \<longrightarrow>
              x \<lparr> state := PARENT_DELETED \<rparr> \<in> set cmts') \<and>
         (\<forall>x\<in>set cmts. \<forall>g\<in>set cmts.
              parent x = Some commentId \<and> parent g = Some (comment_id x) \<and>
              parent g \<noteq> Some commentId \<and> comment_id g \<noteq> commentId \<longrightarrow> g \<in> set cmts') \<and>
         (\<forall>x\<in>set cmts. parent x \<noteq> Some commentId \<and> comment_id x \<noteq> commentId \<longrightarrow>
              x \<in> set cmts')"
proof -
  from deleteComment_success [OF assms(2)] obtain cfg usr c where
    "commentsEnabled opts = Some cfg" "User_findById users (Some editorId) = Some usr"
    "findById comment_id cmts (Some commentId) = Some c"
    by blast
  from deleteComment_run [OF this assms(1), of permissionsCheck] assms(2)
  have after: "cmts' = cascaded commentId cmts" by simp
  show ?thesis
    using cascaded_gone [of commentId cmts] cascaded_findById [of commentId cmts]
      cascaded_children [of commentId cmts]
      cascaded_child [of _ cmts commentId] cascaded_other [of _ cmts commentId]
    unfolding after by blast
qed

theorem deleteComment_cascade_one_level_witness:
  "distinct (map comment_id sampleCmts) \<and>
   Comment_deleteComment (roleSatisfies rankOf) sampleOpts sampleUsers sampleCmts
       ''cccccccccccccccccccccc01'' ''aaaaaaaaaaaaaaaaaaaaaa03'' =
     (Inr (Success (Some (cmtRoot, Some [cmtX, cmtY])) ECommentMSG.SUCCESS_DELETE
             (Status EStatusCodes.SUCCESS)),
      [cmtX \<lparr> state := PARENT_DELETED \<rparr>, cmtY \<lparr> state := PARENT_DELETED \<rparr>, cmtG],
      []) \<and>
   findById comment_id
     [cmtX \<lparr> state := PARENT_DELETED \<rparr>, cmtY \<lparr> state := PARENT_DELETED \<rparr>, cmtG]
     (Some ''cccccccccccccccccccccc01'') = None \<and>
   parent cmtX = Some ''cccccccccccccccccccccc01'' \<and> state cmtX = ACCEPTED \<and>
   parent cmtY = Some ''cccccccccccccccccccccc01'' \<and> state cmtY = ACCEPTED \<and>
   cmtX \<lparr> state := PARENT_DELETED \<rparr>
     \<in> set [cmtX \<lparr> state := PARENT_DELETED \<rparr>, cmtY \<lparr> state := PARENT_DELETED \<rparr>, cmtG] \<and>
   cmtY \<lparr> state := PARENT_DELETED \<rparr>
     \<in> set [cmtX \<lparr> state := PARENT_DELETED \<rparr>, cmtY \<lparr> state := PARENT_DELETED \<rparr>, cmtG] \<and>
   parent cmtG = Some (comment_id cmtX) \<and> state cmtG = ACCEPTED \<and>
   cmtG \<in> set [cmtX \<lparr> state := PARENT_DELETED \<rparr>, cmtY \<lparr> state := PARENT_DELETED \<rparr>, cmtG]"
proof -
  let ?after = "[cmtX \<lparr> state := PARENT_DELETED \<rparr>, cmtY \<lparr> state := PARENT_DELETED \<rparr>, cmtG]"
  note T = deleteComment_cascade_one_level [OF sampleCmts_distinct sample_delete_root]
  have x: "cmtX \<in> set sampleCmts \<and> parent cmtX = Some ''cccccccccccccccccccccc01'' \<and>
           comment_id cmtX \<noteq> ''cccccccccccccccccccccc01'' \<and> state cmtX = ACCEPTED"
    and y: "cmtY \<in> set sampleCmts \<and> parent cmtY = Some ''cccccccccccccccccccccc01'' \<and>
           comment_id cmtY \<noteq> ''cccccccccccccccccccccc01'' \<and> state cmtY = ACCEPTED"
    and g: "cmtG \<in> set sampleCmts \<and> parent cmtG = Some (comment_id cmtX) \<and>
           parent cmtG \<noteq> Some ''cccccccccccccccccccccc01'' \<and>
           comment_id cmtG \<noteq> ''cccccccccccccccccccccc01'' \<and> state cmtG = ACCEPTED"
    by (simp_all add: sample_defs)
  from T have gone: "findById comment_id ?after (Some ''cccccccccccccccccccccc01'') = None"
    by blast
  from T x have kx: "cmtX \<lparr> state := PARENT_DELETED \<rparr> \<in> set ?after"
    by blast
  from T y have ky: "cmtY \<lparr> state := PARENT_DELETED \<rparr> \<in> set ?after"
    by blast
  from T x g have kg: "cmtG \<in> set ?after"
    by blast
  from sampleCmts_distinct sample_delete_root gone x y g kx ky kg
  show ?thesis by blast
qed

text \<open>
  C5. For every existing comment (identifiers being unique in the collection) and every
  resolvable editor who is neither the author of the comment nor satisfies the \<open>canMange\<close>
  role, \<open>deleteComment\<close> builds the error "no permission" without returning it and goes
  on: the comment is deleted, its direct children are stored with state \<open>PARENT_DELETED\<close>,
  and the caller receives a success result.
\<close>

theorem deleteComment_permission_error_does_not_halt:
  assumes "commentsEnabled opts = Some cfg"
    and "User_findById users (Some editorId) = Some usr"
    and "findById comment_id cmts (Some commentId) = Some c"
    and "distinct (map comment_id cmts)"
    and "Some (user_id usr) \<noteq> user c"
    and "\<not> permissionsCheck (Some (canMange cfg)) (Some (user_role usr))"
  shows "\<exists>cmts'. Comment_deleteComment permissionsCheck opts users cmts commentId editorId =
           (Inr (Success (Some (c, Some (childrenOf cmts c))) ECommentMSG.SUCCESS_DELETE
                   (Status EStatusCodes.SUCCESS)),
            cmts',
            [SingleError ''editor'' ECommentMSG.NO_PERMISSION (Status FORBIDDEN)]) \<and>
         findById comment_id cmts' (Some commentId) = None \<and>
         (\<forall>x\<in>set cmts. parent x = Some commentId \<and> comment_id x \<noteq> commentId \<longrightarrow>
              x \<lparr> state := PARENT_DELETED \<rparr> \<in> set cmts') \<and>
         (\<forall>x\<in>set cmts'. parent x = Some commentId \<longrightarrow> state x = PARENT_DELETED)"
  using deleteComment_run [OF assms(1-4), of permissionsCheck] assms(6)
    cascaded_findById [of commentId cmts]
    cascaded_children [of commentId cmts] cascaded_child [of _ cmts commentId]
  by (intro exI [of _ "cascaded commentId cmts"]) simp

theorem deleteComment_permission_error_does_not_halt_witness:
  "commentsEnabled sampleOpts = Some sampleComments \<and>
   User_findById sampleUsers (Some ''aaaaaaaaaaaaaaaaaaaaaa02'') = Some userSeller \<and>
   findById comment_id sampleCmts (Some ''cccccccccccccccccccccc02'') = Some cmtX \<and>
   distinct (map comment_id sampleCmts) \<and>
   Some (user_id userSeller) \<noteq> user cmtX \<and>
   \<not> roleSatisfies rankOf (Some (canMange sampleComments)) (Some (user_role userSeller)) \<and>
   Comment_deleteComment (roleSatisfies rankOf) sampleOpts sampleUsers sampleCmts
       ''cccccccccccccccccccccc02'' ''aaaaaaaaaaaaaaaaaaaaaa02'' =
     (Inr (Success (Some (cmtX, Some [cmtG])) ECommentMSG.SUCCESS_DELETE
             (Status EStatusCodes.SUCCESS)),
      [cmtRoot, cmtY, cmtG \<lparr> state := PARENT_DELETED \<rparr>],
      [SingleError ''editor'' ECommentMSG.NO_PERMISSION (Status FORBIDDEN)])"
proof -
  have h2: "User_findById sampleUsers (Some ''aaaaaaaaaaaaaaaaaaaaaa02'') = Some userSeller"
    by (simp add: User_findById_def findById_def sample_defs)
  have h3: "findById comment_id sampleCmts (Some ''cccccccccccccccccccccc02'') = Some cmtX"
    by (simp add: findById_def sample_defs)
  have h5: "Some (user_id userSeller) \<noteq> user cmtX"
    by (simp add: sample_defs)
  have h6: "\<not> roleSatisfies rankOf (Some (canMange sampleComments)) (Some (user_role userSeller))"
    by (simp add: sample_defs)
  have k: "childrenOf sampleCmts cmtX = [cmtG]"
    by (simp add: childrenOf_def sample_defs)
  from deleteComment_permission_error_does_not_halt
         [where permissionsCheck = "roleSatisfies rankOf",
          OF sampleOpts_comments h2 h3 sampleCmts_distinct h5 h6]
  obtain cmts' where
    r: "Comment_deleteComment (roleSatisfies rankOf) sampleOpts sampleUsers sampleCmts
          ''cccccccccccccccccccccc02'' ''aaaaaaaaaaaaaaaaaaaaaa02'' =
        (Inr (Success (Some (cmtX, Some (childrenOf sampleCmts cmtX))) ECommentMSG.SUCCESS_DELETE
                (Status EStatusCodes.SUCCESS)),
         cmts',
         [SingleError ''editor'' ECommentMSG.NO_PERMISSION (Status FORBIDDEN)])"
    by blast
  from deleteComment_run [OF sampleOpts_comments h2 h3 sampleCmts_distinct, of "roleSatisfies rankOf"] r
  have "cmts' = [cmtRoot, cmtY, cmtG \<lparr> state := PARENT_DELETED \<rparr>]"
    by (simp add: sampleCmts_cascaded_X)
  with r k sampleOpts_comments h2 h3 sampleCmts_distinct h5 h6 show ?thesis
    by simp
qed

section \<open>The order of the checks in the write operations\<close>

lemma edit_checks_ordered:
  "subseq (checksOf (Doc_edit permissionsCheck isId opts users docs identity data editorId)) checkOrder"
  by (simp add: Doc_edit_def Let_def checkOrder_def split: option.splits)

lemma delete_checks_ordered:
  "subseq (checksOf (Doc_delete permissionsCheck isId opts users docs identity userId)) checkOrder"
  by (simp add: Doc_delete_def Let_def checkOrder_def split: option.splits)

lemma create_checks_ordered:
  "subseq (checksOf (Doc_create permissionsCheck Model_create opts users docs payload author)) checkOrder"
  by (simp add: Doc_create_def Let_def checkOrder_def split: option.splits)

lemma edit_not_found:
  "findDocByIdentity isId doc_id slug identity docs = None \<Longrightarrow>
   Doc_edit permissionsCheck isId opts users docs identity data editorId =
     (SingleError ''document'' DOCUMENT_NOT_FOUND NoStatus, docs, [DocumentExists])"
  by (simp add: Doc_edit_def Let_def)

lemma delete_not_found:
  "findDocByIdentity isId doc_id slug identity docs = None \<Longrightarrow>
   Doc_delete permissionsCheck isId opts users docs identity userId =
     (SingleError ''document'' DOCUMENT_NOT_FOUND NoStatus, docs, [DocumentExists])"
  by (simp add: Doc_delete_def Let_def)

text \<open>An error result is the error of the last check evaluated, and nothing was stored.\<close>

lemma edit_error_case:
  "case Doc_edit permissionsCheck isId opts users docs identity data editorId of
     (SingleError f m s, docs', cs) \<Rightarrow> (f, m, s) = checkError (last cs) \<and> docs' = docs
   | _ \<Rightarrow> True"
  by (simp add: Doc_edit_def Let_def split: option.splits)

lemma edit_error_of_last_check:
  assumes "resultOf (Doc_edit permissionsCheck isId opts users docs identity data editorId) =
             SingleError f m s"
  shows "(f, m, s) =
           checkError (last (checksOf (Doc_edit permissionsCheck isId opts users docs identity data editorId))) \<and>
         storedAfter (Doc_edit permissionsCheck isId opts users docs identity data editorId) = docs"
  using assms
    edit_error_case [where permissionsCheck = permissionsCheck and isId = isId and opts = opts and
      users = users and docs = docs and identity = identity and data = data and editorId = editorId]
  by (cases "Doc_edit permissionsCheck isId opts users docs identity data editorId") simp

lemma delete_error_case:
  "case Doc_delete permissionsCheck isId opts users docs identity userId of
     (SingleError f m s, docs', cs) \<Rightarrow> (f, m, s) = checkError (last cs) \<and> docs' = docs
   | _ \<Rightarrow> True"
  by (simp add: Doc_delete_def Let_def split: option.splits)

lemma delete_error_of_last_check:
  assumes "resultOf (Doc_delete permissionsCheck isId opts users docs identity userId) =
             SingleError f m s"
  shows "(f, m, s) =
           checkError (last (checksOf (Doc_delete permissionsCheck isId opts users docs identity userId))) \<and>
         storedAfter (Doc_delete permissionsCheck isId opts users docs identity userId) = docs"
  using assms
    delete_error_case [where permissionsCheck = permissionsCheck and isId = isId and opts = opts and
      users = users and docs = docs and identity = identity and userId = userId]
  by (cases "Doc_delete permissionsCheck isId opts users docs identity userId") simp

text \<open>A failing role check decides the result, whatever the owner and the payload are.\<close>

lemma edit_role_first:
  assumes "findDocByIdentity isId doc_id slug identity docs = Some d"
    and "User_findById users editorId = Some usr"
    and "map_option role (Option.bind (advanceOf opts) edit) \<noteq> Some GEST"
    and "\<not> permissionsCheck (map_option role (Option.bind (advanceOf opts) edit))
            (Some (user_role usr))"
  shows "Doc_edit permissionsCheck isId opts users docs identity data editorId =
           (SingleError ''user'' EDocumentMSG.NO_PERMISSION NoStatus, docs,
            [DocumentExists, ActorExists, RolePermission])"
  using assms by (simp add: Doc_edit_def Let_def del: map_option_eq_Some)

text \<open>An editor who cannot be resolved decides the result before the role check.\<close>

lemma edit_actor_missing:
  assumes "findDocByIdentity isId doc_id slug identity docs = Some d"
    and "map_option role (Option.bind (advanceOf opts) edit) \<noteq> Some GEST \<or>
         map_option public (Option.bind (advanceOf opts) edit) \<noteq> Some True"
    and "User_findById users editorId = None"
  shows "Doc_edit permissionsCheck isId opts users docs identity data editorId =
           (SingleError ''user'' EDocumentMSG.USER_NOT_FOUND NoStatus, docs,
            [DocumentExists, ActorExists])"
  using assms by (auto simp add: Doc_edit_def Let_def simp del: map_option_eq_Some)

text \<open>A failing ownership check decides the result, whatever the payload is.\<close>

lemma edit_ownership_second:
  assumes "findDocByIdentity isId doc_id slug identity docs = Some d"
    and "User_findById users editorId = Some usr"
    and "map_option role (Option.bind (advanceOf opts) edit) = Some GEST \<or>
         permissionsCheck (map_option role (Option.bind (advanceOf opts) edit))
           (Some (user_role usr))"
    and "map_option public (Option.bind (advanceOf opts) edit) \<noteq> Some True"
    and "strictNotEqual (authorId d) (Some (user_id usr))"
  shows "resultOf (Doc_edit permissionsCheck isId opts users docs identity data editorId) =
           SingleError ''user'' EDocumentMSG.NO_PERMISSION NoStatus \<and>
         storedAfter (Doc_edit permissionsCheck isId opts users docs identity data editorId) = docs \<and>
         last (checksOf (Doc_edit permissionsCheck isId opts users docs identity data editorId)) =
           Ownership"
  using assms by (auto simp add: Doc_edit_def Let_def simp del: map_option_eq_Some)

text \<open>
  When the first four checks pass, the checks of the new author decide the result: first
  the existence, then the eligibility.
\<close>

lemma edit_new_author_last:
  assumes "findDocByIdentity isId doc_id slug identity docs = Some d"
    and "actor = (if map_option role (Option.bind (advanceOf opts) edit) \<noteq> Some GEST \<or>
                     map_option public (Option.bind (advanceOf opts) edit) \<noteq> Some True
                  then User_findById users editorId else None)"
    and "map_option role (Option.bind (advanceOf opts) edit) = Some GEST \<and>
         map_option public (Option.bind (advanceOf opts) edit) = Some True \<or> actor \<noteq> None"
    and "map_option role (Option.bind (advanceOf opts) edit) = Some GEST \<or>
         permissionsCheck (map_option role (Option.bind (advanceOf opts) edit))
           (map_option user_role actor)"
    and "map_option public (Option.bind (advanceOf opts) edit) = Some True \<or>
         \<not> strictNotEqual (authorId d) (map_option user_id actor)"
    and "new_authorId data = Some a"
  shows "(User_findById users a = None \<longrightarrow>
            resultOf (Doc_edit permissionsCheck isId opts users docs identity data editorId) =
              SingleError ''new_author'' EDocumentMSG.USER_NOT_FOUND (Status NOT_FOUND) \<and>
            storedAfter (Doc_edit permissionsCheck isId opts users docs identity data editorId) = docs \<and>
            last (checksOf (Doc_edit permissionsCheck isId opts users docs identity data editorId)) =
              NewAuthorExists) \<and>
         (\<forall>newAuthor. User_findById users a = Some newAuthor \<and>
            \<not> permissionsCheck (Option.bind (advanceOf opts) create) (Some (user_role newAuthor)) \<longrightarrow>
            resultOf (Doc_edit permissionsCheck isId opts users docs identity data editorId) =
              SingleError ''new_author'' NEW_AUTHOR_IS_NOT_VALID NoStatus \<and>
            storedAfter (Doc_edit permissionsCheck isId opts users docs identity data editorId) = docs \<and>
            last (checksOf (Doc_edit permissionsCheck isId opts users docs identity data editorId)) =
              NewAuthorPermission)"
  using assms
  by (cases "map_option role (Option.bind (advanceOf opts) edit) = Some GEST";
      cases "map_option public (Option.bind (advanceOf opts) edit) = Some True";
      cases "User_findById users editorId"; cases "User_findById users a")
     (simp_all add: Doc_edit_def Let_def strictNotEqual_def del: map_option_eq_Some)

text \<open>The same precedence in \<open>delete\<close>: the actor, the role, the ownership, the success.\<close>

lemma delete_actor_missing:
  assumes "findDocByIdentity isId doc_id slug identity docs = Some d"
    and "map_option role (Option.bind (advanceOf opts) delete) \<noteq> Some GEST \<or>
         map_option public (Option.bind (advanceOf opts) delete) \<noteq> Some True"
    and "User_findById users userId = None"
  shows "Doc_delete permissionsCheck isId opts users docs identity userId =
           (SingleError ''user'' EDocumentMSG.USER_NOT_FOUND NoStatus, docs,
            [DocumentExists, ActorExists])"
  using assms by (auto simp add: Doc_delete_def Let_def simp del: map_option_eq_Some)

lemma delete_role_first:
  assumes "findDocByIdentity isId doc_id slug identity docs = Some d"
    and "User_findById users userId = Some usr"
    and "map_option role (Option.bind (advanceOf opts) delete) \<noteq> Some GEST"
    and "\<not> permissionsCheck (map_option role (Option.bind (advanceOf opts) delete))
            (Some (user_role usr))"
  shows "Doc_delete permissionsCheck isId opts users docs identity userId =
           (SingleError ''user'' EDocumentMSG.NO_PERMISSION NoStatus, docs,
            [DocumentExists, ActorExists, RolePermission])"
  using assms by (simp add: Doc_delete_def Let_def del: map_option_eq_Some)

lemma delete_ownership_second:
  assumes "findDocByIdentity isId doc_id slug identity docs = Some d"
    and "User_findById users userId = Some usr"
    and "map_option role (Option.bind (advanceOf opts) delete) = Some GEST \<or>
         permissionsCheck (map_option role (Option.bind (advanceOf opts) delete))
           (Some (user_role usr))"
    and "map_option public (Option.bind (advanceOf opts) delete) \<noteq> Some True"
    and "strictNotEqual (authorId d) (Some (user_id usr))"
  shows "Doc_delete permissionsCheck isId opts users docs identity userId =
           (SingleError ''user'' EDocumentMSG.NO_PERMISSION NoStatus, docs,
            [DocumentExists, ActorExists] @
            (if map_option role (Option.bind (advanceOf opts) delete) \<noteq> Some GEST
             then [RolePermission] else []) @ [Ownership])"
  using assms by (auto simp add: Doc_delete_def Let_def simp del: map_option_eq_Some)

lemma delete_all_pass:
  assumes "findDocByIdentity isId doc_id slug identity docs = Some d"
    and "actor = (if map_option role (Option.bind (advanceOf opts) delete) \<noteq> Some GEST \<or>
                     map_option public (Option.bind (advanceOf opts) delete) \<noteq> Some True
                  then User_findById users userId else None)"
    and "map_option role (Option.bind (advanceOf opts) delete) = Some GEST \<and>
         map_option public (Option.bind (advanceOf opts) delete) = Some True \<or> actor \<noteq> None"
    and "map_option role (Option.bind (advanceOf opts) delete) = Some GEST \<or>
         permissionsCheck (map_option role (Option.bind (advanceOf opts) delete))
           (map_option user_role actor)"
    and "map_option public (Option.bind (advanceOf opts) delete) = Some True \<or>
         \<not> strictNotEqual (authorId d) (map_option user_id actor)"
  shows "resultOf (Doc_delete permissionsCheck isId opts users docs identity userId) =
           Success (Some d) EDocumentMSG.SUCCESS_DELETE (Status EStatusCodes.SUCCESS)"
  using assms
  by (cases "map_option role (Option.bind (advanceOf opts) delete) = Some GEST";
      cases "map_option public (Option.bind (advanceOf opts) delete) = Some True";
      cases "User_findById users userId")
     (simp_all add: Doc_delete_def Let_def strictNotEqual_def del: map_option_eq_Some)

text \<open>The precedence in \<open>create\<close>: the author given, the author found, the role, the success.\<close>

lemma create_guest_level:
  assumes "Option.bind (advanceOf opts) create = Some GEST"
  shows "Doc_create permissionsCheck Model_create opts users docs payload author =
           (Success (Some (Model_create payload docs)) EDocumentMSG.SUCCESS_CREATE
              (Status EStatusCodes.SUCCESS_CREATE),
            docs @ [Model_create payload docs], [])"
  using assms by (simp add: Doc_create_def Let_def)

lemma create_author_not_given:
  assumes "Option.bind (advanceOf opts) create \<noteq> Some GEST"
    and "falsy author"
  shows "Doc_create permissionsCheck Model_create opts users docs payload author =
           (SingleError ''user'' AUTHOR_NOT_FOUND NoStatus, docs, [ActorGiven])"
  using assms by (simp add: Doc_create_def Let_def)

lemma create_author_missing:
  assumes "Option.bind (advanceOf opts) create \<noteq> Some GEST"
    and "\<not> falsy author"
    and "User_findById users author = None"
  shows "Doc_create permissionsCheck Model_create opts users docs payload author =
           (SingleError ''user'' AUTHOR_NOT_FOUND NoStatus, docs, [ActorGiven, ActorExists])"
  using assms by (simp add: Doc_create_def Let_def)

lemma create_role_last:
  assumes "Option.bind (advanceOf opts) create \<noteq> Some GEST"
    and "\<not> falsy author"
    and "User_findById users author = Some usr"
  shows "Doc_create permissionsCheck Model_create opts users docs payload author =
           (if \<not> permissionsCheck (Option.bind (advanceOf opts) create) (Some (user_role usr))
            then (SingleError ''user'' EDocumentMSG.NO_PERMISSION NoStatus, docs,
                  [ActorGiven, ActorExists, RolePermission])
            else (Success (Some (Model_create payload docs)) EDocumentMSG.SUCCESS_CREATE
                    (Status EStatusCodes.SUCCESS_CREATE),
                  docs @ [Model_create payload docs],
                  [ActorGiven, ActorExists, RolePermission]))"
  using assms by (simp add: Doc_create_def Let_def)

text \<open>
  C2. In the write operations the checks run in one fixed order: the record-existence check,
  the resolution of the actor, the role-permission check, the ownership check, and for an
  \<open>authorId\<close> in the payload of \<open>edit\<close> the existence and then the eligibility of the new
  author; a request that violates several checks gets the error of the first of them in
  that order. For \<open>edit\<close> and \<open>delete\<close>: an identity that resolves to no record gives
  "Document not found" after the existence check alone, whoever calls; on a resolved record
  an actor who cannot be resolved gives "user not found"; a resolved actor who fails the
  role check gives "no permission" after the role check, whoever owns the record; an
  actor who passes the role check and fails the ownership test gives "no permission" after
  the ownership check, whatever the payload; and when all four pass, \<open>delete\<close> succeeds
  and \<open>edit\<close> returns the error of the missing and then of the ineligible new author. For
  \<open>create\<close>, which has no record to resolve and no owner: a missing and then an unknown
  author give "author not found", then a failing role check gives "no permission", and
  otherwise the record is created. The checks that each call evaluates are a subsequence
  of the fixed order, and an error result of \<open>edit\<close> or \<open>delete\<close> is the error of the last
  check evaluated, with nothing stored.
\<close>

theorem write_checks_run_in_fixed_order:
  fixes permissionsCheck :: "ERole option \<Rightarrow> ERole option \<Rightarrow> bool"
    and docs :: "'a IModel list"
    and Model_create :: "'p \<Rightarrow> 'a IModel list \<Rightarrow> 'a IModel"
    and isId opts users identity data editorId userId payload author
  defines "e \<equiv> Doc_edit permissionsCheck isId opts users docs identity data editorId"
  defines "d \<equiv> Doc_delete permissionsCheck isId opts users docs identity userId"
  defines "c \<equiv> Doc_create permissionsCheck Model_create opts users docs payload author"
  defines "editRole \<equiv> map_option role (Option.bind (advanceOf opts) edit)"
  defines "editPublic \<equiv> map_option public (Option.bind (advanceOf opts) edit)"
  defines "deleteRole \<equiv> map_option role (Option.bind (advanceOf opts) delete)"
  defines "deletePublic \<equiv> map_option public (Option.bind (advanceOf opts) delete)"
  defines "createRole \<equiv> Option.bind (advanceOf opts) create"
  defines "editor \<equiv> (if editRole \<noteq> Some GEST \<or> editPublic \<noteq> Some True
                       then User_findById users editorId else None)"
  defines "deleter \<equiv> (if deleteRole \<noteq> Some GEST \<or> deletePublic \<noteq> Some True
                        then User_findById users userId else None)"
  shows "subseq (checksOf e) checkOrder \<and> subseq (checksOf d) checkOrder \<and>
         subseq (checksOf c) checkOrder \<and>
         (\<forall>f m s. resultOf e = SingleError f m s \<longrightarrow>
            (f, m, s) = checkError (last (checksOf e)) \<and> storedAfter e = docs) \<and>
         (\<forall>f m s. resultOf d = SingleError f m s \<longrightarrow>
            (f, m, s) = checkError (last (checksOf d)) \<and> storedAfter d = docs) \<and>
         (findDocByIdentity isId doc_id slug identity docs = None \<longrightarrow>
            e = (SingleError ''document'' DOCUMENT_NOT_FOUND NoStatus, docs, [DocumentExists])) \<and>
         (\<forall>found. findDocByIdentity isId doc_id slug identity docs = Some found \<and>
            (editRole \<noteq> Some GEST \<or> editPublic \<noteq> Some True) \<and>
            User_findById users editorId = None \<longrightarrow>
            e = (SingleError ''user'' EDocumentMSG.USER_NOT_FOUND NoStatus, docs,
                 [DocumentExists, ActorExists])) \<and>
         (\<forall>found usr. findDocByIdentity isId doc_id slug identity docs = Some found \<and>
            User_findById users editorId = Some usr \<and> editRole \<noteq> Some GEST \<and>
            \<not> permissionsCheck editRole (Some (user_role usr)) \<longrightarrow>
            e = (SingleError ''user'' EDocumentMSG.NO_PERMISSION NoStatus, docs,
                 [DocumentExists, ActorExists, RolePermission])) \<and>
         (\<forall>found usr. findDocByIdentity isId doc_id slug identity docs = Some found \<and>
            User_findById users editorId = Some usr \<and>
            (editRole = Some GEST \<or> permissionsCheck editRole (Some (user_role usr))) \<and>
            editPublic \<noteq> Some True \<and> strictNotEqual (authorId found) (Some (user_id usr)) \<longrightarrow>
            resultOf e = SingleError ''user'' EDocumentMSG.NO_PERMISSION NoStatus \<and>
            storedAfter e = docs \<and> last (checksOf e) = Ownership) \<and>
         (\<forall>found a. findDocByIdentity isId doc_id slug identity docs = Some found \<and>
            (editRole = Some GEST \<and> editPublic = Some True \<or> editor \<noteq> None) \<and>
            (editRole = Some GEST \<or> permissionsCheck editRole (map_option user_role editor)) \<and>
            (editPublic = Some True \<or>
               \<not> strictNotEqual (authorId found) (map_option user_id editor)) \<and>
            new_authorId data = Some a \<longrightarrow>
            (User_findById users a = None \<longrightarrow>
               resultOf e = SingleError ''new_author'' EDocumentMSG.USER_NOT_FOUND (Status NOT_FOUND) \<and>
               storedAfter e = docs \<and> last (checksOf e) = NewAuthorExists) \<and>
            (\<forall>newAuthor. User_findById users a = Some newAuthor \<and>
               \<not> permissionsCheck createRole (Some (user_role newAuthor)) \<longrightarrow>
               resultOf e = SingleError ''new_author'' NEW_AUTHOR_IS_NOT_VALID NoStatus \<and>
               storedAfter e = docs \<and> last (checksOf e) = NewAuthorPermission)) \<and>
         (findDocByIdentity isId doc_id slug identity docs = None \<longrightarrow>
            d = (SingleError ''document'' DOCUMENT_NOT_FOUND NoStatus, docs, [DocumentExists])) \<and>
         (\<forall>found. findDocByIdentity isId doc_id slug identity docs = Some found \<and>
            (deleteRole \<noteq> Some GEST \<or> deletePublic \<noteq> Some True) \<and>
            User_findById users userId = None \<longrightarrow>
            d = (SingleError ''user'' EDocumentMSG.USER_NOT_FOUND NoStatus, docs,
                 [DocumentExists, ActorExists])) \<and>
         (\<forall>found usr. findDocByIdentity isId doc_id slug identity docs = Some found \<and>
            User_findById users userId = Some usr \<and> deleteRole \<noteq> Some GEST \<and>
            \<not> permissionsCheck deleteRole (Some (user_role usr)) \<longrightarrow>
            d = (SingleError ''user'' EDocumentMSG.NO_PERMISSION NoStatus, docs,
                 [DocumentExists, ActorExists, RolePermission])) \<and>
         (\<forall>found usr. findDocByIdentity isId doc_id slug identity docs = Some found \<and>
            User_findById users userId = Some usr \<and>
            (deleteRole = Some GEST \<or> permissionsCheck deleteRole (Some (user_role usr))) \<and>
            deletePublic \<noteq> Some True \<and> strictNotEqual (authorId found) (Some (user_id usr)) \<longrightarrow>
            d = (SingleError ''user'' EDocumentMSG.NO_PERMISSION NoStatus, docs,
                 [DocumentExists, ActorExists] @
                 (if deleteRole \<noteq> Some GEST then [RolePermission] else []) @ [Ownership])) \<and>
         (\<forall>found. findDocByIdentity isId doc_id slug identity docs = Some found \<and>
            (deleteRole = Some GEST \<and> deletePublic = Some True \<or> deleter \<noteq> None) \<and>
            (deleteRole = Some GEST \<or> permissionsCheck deleteRole (map_option user_role deleter)) \<and>
            (deletePublic = Some True \<or>
               \<not> strictNotEqual (authorId found) (map_option user_id deleter)) \<longrightarrow>
            resultOf d = Success (Some found) EDocumentMSG.SUCCESS_DELETE
                           (Status EStatusCodes.SUCCESS)) \<and>
         (createRole = Some GEST \<longrightarrow>
            c = (Success (Some (Model_create payload docs)) EDocumentMSG.SUCCESS_CREATE
                   (Status EStatusCodes.SUCCESS_CREATE),
                 docs @ [Model_create payload docs], [])) \<and>
         (createRole \<noteq> Some GEST \<and> falsy author \<longrightarrow>
            c = (SingleError ''user'' AUTHOR_NOT_FOUND NoStatus, docs, [ActorGiven])) \<and>
         (createRole \<noteq> Some GEST \<and> \<not> falsy author \<and> User_findById users author = None \<longrightarrow>
            c = (SingleError ''user'' AUTHOR_NOT_FOUND NoStatus, docs, [ActorGiven, ActorExists])) \<and>
         (\<forall>usr. createRole \<noteq> Some GEST \<and> \<not> falsy author \<and>
            User_findById users author = Some usr \<longrightarrow>
            c = (if \<not> permissionsCheck createRole (Some (user_role usr))
                 then (SingleError ''user'' EDocumentMSG.NO_PERMISSION NoStatus, docs,
                       [ActorGiven, ActorExists, RolePermission])
                 else (Success (Some (Model_create payload docs)) EDocumentMSG.SUCCESS_CREATE
                         (Status EStatusCodes.SUCCESS_CREATE),
                       docs @ [Model_create payload docs],
                       [ActorGiven, ActorExists, RolePermission])))"
  unfolding e_def d_def c_def editor_def deleter_def editRole_def editPublic_def deleteRole_def
    deletePublic_def createRole_def
  apply (intro conjI)
  subgoal by (rule edit_checks_ordered)
  subgoal by (rule delete_checks_ordered)
  subgoal by (rule create_checks_ordered)
  subgoal by (intro allI impI) (rule edit_error_of_last_check)
  subgoal by (intro allI impI) (rule delete_error_of_last_check)
  subgoal by (intro impI) (rule edit_not_found)
  subgoal by (intro allI impI, elim conjE) (rule edit_actor_missing)
  subgoal by (intro allI impI, elim conjE) (rule edit_role_first)
  subgoal by (intro allI impI, elim conjE) (rule edit_ownership_second)
  subgoal by (intro allI impI, elim conjE) (rule edit_new_author_last [OF _ refl])
  subgoal by (intro impI) (rule delete_not_found)
  subgoal by (intro allI impI, elim conjE) (rule delete_actor_missing)
  subgoal by (intro allI impI, elim conjE) (rule delete_role_first)
  subgoal by (intro allI impI, elim conjE) (rule delete_ownership_second)
  subgoal by (intro allI impI, elim conjE) (rule delete_all_pass [OF _ refl])
  subgoal by (intro impI) (rule create_guest_level)
  subgoal by (intro impI, elim conjE) (rule create_author_not_given)
  subgoal by (intro impI, elim conjE) (rule create_author_missing)
  subgoal by (intro allI impI, elim conjE) (rule create_role_last)
  done

theorem write_checks_run_in_fixed_order_witness:
  "Doc_edit (roleSatisfies rankOf) isObjectId sampleOpts sampleUsers sampleDocs
       ''dddddddddddddddddddddd09'' toUnknownAuthor (Some ''aaaaaaaaaaaaaaaaaaaaaa01'') =
     (SingleError ''document'' DOCUMENT_NOT_FOUND NoStatus, sampleDocs, [DocumentExists]) \<and>
   Doc_delete (roleSatisfies rankOf) isObjectId sampleOpts sampleUsers sampleDocs
       ''dddddddddddddddddddddd09'' (Some ''aaaaaaaaaaaaaaaaaaaaaa01'') =
     (SingleError ''document'' DOCUMENT_NOT_FOUND NoStatus, sampleDocs, [DocumentExists]) \<and>
   (''document'', DOCUMENT_NOT_FOUND, NoStatus) =
     checkError (last (checksOf (Doc_edit (roleSatisfies rankOf) isObjectId sampleOpts sampleUsers
       sampleDocs ''dddddddddddddddddddddd09'' toUnknownAuthor (Some ''aaaaaaaaaaaaaaaaaaaaaa01'')))) \<and>
   (''document'', DOCUMENT_NOT_FOUND, NoStatus) =
     checkError (last (checksOf (Doc_delete (roleSatisfies rankOf) isObjectId sampleOpts sampleUsers
       sampleDocs ''dddddddddddddddddddddd09'' (Some ''aaaaaaaaaaaaaaaaaaaaaa01'')))) \<and>
   Doc_edit (roleSatisfies rankOf) isObjectId sampleOpts sampleUsers sampleDocs
       ''dddddddddddddddddddddd01'' toUnknownAuthor None =
     (SingleError ''user'' EDocumentMSG.USER_NOT_FOUND NoStatus, sampleDocs,
      [DocumentExists, ActorExists]) \<and>
   Doc_delete (roleSatisfies rankOf) isObjectId sampleOpts sampleUsers sampleDocs
       ''dddddddddddddddddddddd01'' None =
     (SingleError ''user'' EDocumentMSG.USER_NOT_FOUND NoStatus, sampleDocs,
      [DocumentExists, ActorExists]) \<and>
   Doc_edit (roleSatisfies rankOf) isObjectId sampleOpts sampleUsers sampleDocs
       ''dddddddddddddddddddddd01'' toUnknownAuthor (Some ''aaaaaaaaaaaaaaaaaaaaaa01'') =
     (SingleError ''user'' EDocumentMSG.NO_PERMISSION NoStatus, sampleDocs,
      [DocumentExists, ActorExists, RolePermission]) \<and>
   Doc_delete (roleSatisfies rankOf) isObjectId sampleOpts sampleUsers sampleDocs
       ''dddddddddddddddddddddd01'' (Some ''aaaaaaaaaaaaaaaaaaaaaa01'') =
     (SingleError ''user'' EDocumentMSG.NO_PERMISSION NoStatus, sampleDocs,
      [DocumentExists, ActorExists, RolePermission]) \<and>
   resultOf (Doc_edit (roleSatisfies rankOf) isObjectId sampleOpts sampleUsers sampleDocs
       ''dddddddddddddddddddddd01'' toUnknownAuthor (Some ''aaaaaaaaaaaaaaaaaaaaaa02'')) =
     SingleError ''user'' EDocumentMSG.NO_PERMISSION NoStatus \<and>
   last (checksOf (Doc_edit (roleSatisfies rankOf) isObjectId sampleOpts sampleUsers sampleDocs
       ''dddddddddddddddddddddd01'' toUnknownAuthor (Some ''aaaaaaaaaaaaaaaaaaaaaa02''))) = Ownership \<and>
   Doc_delete (roleSatisfies rankOf) isObjectId openOpts sampleUsers sampleDocs
       ''dddddddddddddddddddddd01'' (Some ''aaaaaaaaaaaaaaaaaaaaaa02'') =
     (SingleError ''user'' EDocumentMSG.NO_PERMISSION NoStatus, sampleDocs,
      [DocumentExists, ActorExists, RolePermission, Ownership]) \<and>
   resultOf (Doc_delete (roleSatisfies rankOf) isObjectId sampleOpts sampleUsers sampleDocs
       ''dddddddddddddddddddddd02'' (Some ''aaaaaaaaaaaaaaaaaaaaaa02'')) =
     Success (Some docSecond) EDocumentMSG.SUCCESS_DELETE (Status EStatusCodes.SUCCESS) \<and>
   resultOf (Doc_edit (roleSatisfies rankOf) isObjectId openOpts sampleUsers sampleDocs
       ''dddddddddddddddddddddd01'' toUnknownAuthor None) =
     SingleError ''new_author'' EDocumentMSG.USER_NOT_FOUND (Status NOT_FOUND) \<and>
   last (checksOf (Doc_edit (roleSatisfies rankOf) isObjectId openOpts sampleUsers sampleDocs
       ''dddddddddddddddddddddd01'' toUnknownAuthor None)) = NewAuthorExists \<and>
   resultOf (Doc_edit (roleSatisfies rankOf) isObjectId openOpts sampleUsers sampleDocs
       ''dddddddddddddddddddddd01'' toGuestAuthor None) =
     SingleError ''new_author'' NEW_AUTHOR_IS_NOT_VALID NoStatus \<and>
   last (checksOf (Doc_edit (roleSatisfies rankOf) isObjectId openOpts sampleUsers sampleDocs
       ''dddddddddddddddddddddd01'' toGuestAuthor None)) = NewAuthorPermission \<and>
   Doc_create (roleSatisfies rankOf) (\<lambda>p ds. docSecond) guestOpts sampleUsers [docFirst] () None =
     (Success (Some docSecond) EDocumentMSG.SUCCESS_CREATE (Status EStatusCodes.SUCCESS_CREATE),
      [docFirst, docSecond], []) \<and>
   Doc_create (roleSatisfies rankOf) (\<lambda>p ds. docSecond) sampleOpts sampleUsers [docFirst] () None =
     (SingleError ''user'' AUTHOR_NOT_FOUND NoStatus, [docFirst], [ActorGiven]) \<and>
   Doc_create (roleSatisfies rankOf) (\<lambda>p ds. docSecond) sampleOpts sampleUsers [docFirst] ()
       (Some ''aaaaaaaaaaaaaaaaaaaaaa09'') =
     (SingleError ''user'' AUTHOR_NOT_FOUND NoStatus, [docFirst], [ActorGiven, ActorExists]) \<and>
   Doc_create (roleSatisfies rankOf) (\<lambda>p ds. docSecond) sampleOpts sampleUsers [docFirst] ()
       (Some ''aaaaaaaaaaaaaaaaaaaaaa01'') =
     (SingleError ''user'' EDocumentMSG.NO_PERMISSION NoStatus, [docFirst],
      [ActorGiven, ActorExists, RolePermission]) \<and>
   Doc_create (roleSatisfies rankOf) (\<lambda>p ds. docSecond) sampleOpts sampleUsers [docFirst] ()
       (Some ''aaaaaaaaaaaaaaaaaaaaaa02'') =
     (Success (Some docSecond) EDocumentMSG.SUCCESS_CREATE (Status EStatusCodes.SUCCESS_CREATE),
      [docFirst, docSecond], [ActorGiven, ActorExists, RolePermission])"
proof -
  note W = write_checks_run_in_fixed_order [where permissionsCheck = "roleSatisfies rankOf" and
      isId = isObjectId and users = sampleUsers and Model_create = "\<lambda>p ds. docSecond" and
      payload = "()"]
  note drop1 = conjunct2
  note drop2 = drop1 [THEN conjunct2]
  note drop3 = drop2 [THEN conjunct2]
  note drop4 = drop3 [THEN conjunct2]
  note drop5 = drop4 [THEN conjunct2]
  note drop6 = drop5 [THEN conjunct2]
  note drop7 = drop6 [THEN conjunct2]
  note drop8 = drop7 [THEN conjunct2]
  note drop9 = drop8 [THEN conjunct2]
  note drop10 = drop9 [THEN conjunct2]
  note drop11 = drop10 [THEN conjunct2]
  note drop12 = drop11 [THEN conjunct2]
  note drop13 = drop12 [THEN conjunct2]
  note drop14 = drop13 [THEN conjunct2]
  note drop15 = drop14 [THEN conjunct2]
  note drop16 = drop15 [THEN conjunct2]
  note drop17 = drop16 [THEN conjunct2]
  note drop18 = drop17 [THEN conjunct2]
  note editLastP = drop3 [THEN conjunct1]
  note deleteLastP = drop4 [THEN conjunct1]
  note editNotFoundP = drop5 [THEN conjunct1]
  note editActorP = drop6 [THEN conjunct1]
  note editRoleP = drop7 [THEN conjunct1]
  note editOwnerP = drop8 [THEN conjunct1]
  note editAuthorP = drop9 [THEN conjunct1]
  note deleteNotFoundP = drop10 [THEN conjunct1]
  note deleteActorP = drop11 [THEN conjunct1]
  note deleteRoleP = drop12 [THEN conjunct1]
  note deleteOwnerP = drop13 [THEN conjunct1]
  note deletePassP = drop14 [THEN conjunct1]
  note createGuestP = drop15 [THEN conjunct1]
  note createNotGivenP = drop16 [THEN conjunct1]
  note createMissingP = drop17 [THEN conjunct1]
  note createRoleP = drop18
  have n: "findDocByIdentity isObjectId doc_id slug ''dddddddddddddddddddddd09'' sampleDocs = None"
    and f1: "findDocByIdentity isObjectId doc_id slug ''dddddddddddddddddddddd01'' sampleDocs =
               Some docFirst"
    and f2: "findDocByIdentity isObjectId doc_id slug ''dddddddddddddddddddddd02'' sampleDocs =
               Some docSecond"
    by (simp_all add: findDocByIdentity_def sample_defs)
  have u0: "User_findById sampleUsers None = None"
    and u1: "User_findById sampleUsers (Some ''aaaaaaaaaaaaaaaaaaaaaa01'') = Some userGuest"
    and u2: "User_findById sampleUsers (Some ''aaaaaaaaaaaaaaaaaaaaaa02'') = Some userSeller"
    and u9: "User_findById sampleUsers (Some ''aaaaaaaaaaaaaaaaaaaaaa09'') = None"
    by (simp_all add: User_findById_def findById_def sample_defs)
  have ps: "map_option role (Option.bind (advanceOf sampleOpts) edit) = Some SELLER"
      "map_option public (Option.bind (advanceOf sampleOpts) edit) = Some False"
      "map_option role (Option.bind (advanceOf sampleOpts) delete) = Some SELLER"
      "map_option public (Option.bind (advanceOf sampleOpts) delete) = Some True"
      "Option.bind (advanceOf sampleOpts) create = Some SELLER"
    by (simp_all add: sampleOpts_advance)
  have po: "map_option role (Option.bind (advanceOf openOpts) edit) = Some GEST"
      "map_option public (Option.bind (advanceOf openOpts) edit) = Some True"
      "map_option role (Option.bind (advanceOf openOpts) delete) = Some SELLER"
      "map_option public (Option.bind (advanceOf openOpts) delete) = Some False"
      "Option.bind (advanceOf openOpts) create = Some SELLER"
    by (simp_all add: openOpts_advance)
  have pg: "Option.bind (advanceOf guestOpts) create = Some GEST"
    by (simp add: guestOpts_advance)
  have rs: "\<not> roleSatisfies rankOf (Some SELLER) (Some (user_role userGuest))"
      "roleSatisfies rankOf (Some SELLER) (Some (user_role userSeller))"
    by (simp_all add: sample_defs)
  have sn: "strictNotEqual (authorId docFirst) (Some (user_id userSeller))"
    by (simp add: strictNotEqual_def)
  have fa: "falsy None" "\<not> falsy (Some ''aaaaaaaaaaaaaaaaaaaaaa01'')"
      "\<not> falsy (Some ''aaaaaaaaaaaaaaaaaaaaaa02'')" "\<not> falsy (Some ''aaaaaaaaaaaaaaaaaaaaaa09'')"
    by (simp_all add: falsy_def)
  have na: "new_authorId toUnknownAuthor = Some (Some ''aaaaaaaaaaaaaaaaaaaaaa09'')"
      "new_authorId toGuestAuthor = Some (Some ''aaaaaaaaaaaaaaaaaaaaaa01'')"
    by (simp_all add: toUnknownAuthor_def toGuestAuthor_def)
  from n W [where docs = sampleDocs and opts = sampleOpts and identity = "''dddddddddddddddddddddd09''" and
      data = toUnknownAuthor and editorId = "Some ''aaaaaaaaaaaaaaaaaaaaaa01''",
      THEN editNotFoundP]
  have a: "Doc_edit (roleSatisfies rankOf) isObjectId sampleOpts sampleUsers sampleDocs
       ''dddddddddddddddddddddd09'' toUnknownAuthor (Some ''aaaaaaaaaaaaaaaaaaaaaa01'') =
     (SingleError ''document'' DOCUMENT_NOT_FOUND NoStatus, sampleDocs, [DocumentExists])"
    by (simp del: map_option_eq_Some)
  from n W [where docs = sampleDocs and opts = sampleOpts and identity = "''dddddddddddddddddddddd09''" and
      userId = "Some ''aaaaaaaaaaaaaaaaaaaaaa01''",
      THEN deleteNotFoundP]
  have a2: "Doc_delete (roleSatisfies rankOf) isObjectId sampleOpts sampleUsers sampleDocs
       ''dddddddddddddddddddddd09'' (Some ''aaaaaaaaaaaaaaaaaaaaaa01'') =
     (SingleError ''document'' DOCUMENT_NOT_FOUND NoStatus, sampleDocs, [DocumentExists])"
    by (simp del: map_option_eq_Some)
  from a W [where docs = sampleDocs and opts = sampleOpts and identity = "''dddddddddddddddddddddd09''" and
      data = toUnknownAuthor and editorId = "Some ''aaaaaaaaaaaaaaaaaaaaaa01''",
      THEN editLastP]
  have a3: "(''document'', DOCUMENT_NOT_FOUND, NoStatus) =
     checkError (last (checksOf (Doc_edit (roleSatisfies rankOf) isObjectId sampleOpts sampleUsers
       sampleDocs ''dddddddddddddddddddddd09'' toUnknownAuthor (Some ''aaaaaaaaaaaaaaaaaaaaaa01''))))"
    by (simp del: map_option_eq_Some)
  from a2 W [where docs = sampleDocs and opts = sampleOpts and identity = "''dddddddddddddddddddddd09''" and
      userId = "Some ''aaaaaaaaaaaaaaaaaaaaaa01''",
      THEN deleteLastP]
  have a4: "(''document'', DOCUMENT_NOT_FOUND, NoStatus) =
     checkError (last (checksOf (Doc_delete (roleSatisfies rankOf) isObjectId sampleOpts sampleUsers
       sampleDocs ''dddddddddddddddddddddd09'' (Some ''aaaaaaaaaaaaaaaaaaaaaa01''))))"
    by (simp del: map_option_eq_Some)
  from f1 u0 ps W [where docs = sampleDocs and opts = sampleOpts and identity = "''dddddddddddddddddddddd01''" and
      data = toUnknownAuthor and editorId = None,
      THEN editActorP]
  have b: "Doc_edit (roleSatisfies rankOf) isObjectId sampleOpts sampleUsers sampleDocs
       ''dddddddddddddddddddddd01'' toUnknownAuthor None =
     (SingleError ''user'' EDocumentMSG.USER_NOT_FOUND NoStatus, sampleDocs,
      [DocumentExists, ActorExists])"
    by (simp del: map_option_eq_Some)
  from f1 u0 ps W [where docs = sampleDocs and opts = sampleOpts and identity = "''dddddddddddddddddddddd01''" and
      userId = None,
      THEN deleteActorP]
  have b2: "Doc_delete (roleSatisfies rankOf) isObjectId sampleOpts sampleUsers sampleDocs
       ''dddddddddddddddddddddd01'' None =
     (SingleError ''user'' EDocumentMSG.USER_NOT_FOUND NoStatus, sampleDocs,
      [DocumentExists, ActorExists])"
    by (simp del: map_option_eq_Some)
  from f1 u1 ps rs W [where docs = sampleDocs and opts = sampleOpts and identity = "''dddddddddddddddddddddd01''" and
      data = toUnknownAuthor and editorId = "Some ''aaaaaaaaaaaaaaaaaaaaaa01''",
      THEN editRoleP]
  have c: "Doc_edit (roleSatisfies rankOf) isObjectId sampleOpts sampleUsers sampleDocs
       ''dddddddddddddddddddddd01'' toUnknownAuthor (Some ''aaaaaaaaaaaaaaaaaaaaaa01'') =
     (SingleError ''user'' EDocumentMSG.NO_PERMISSION NoStatus, sampleDocs,
      [DocumentExists, ActorExists, RolePermission])"
    by (simp del: map_option_eq_Some)
  from f1 u1 ps rs W [where docs = sampleDocs and opts = sampleOpts and identity = "''dddddddddddddddddddddd01''" and
      userId = "Some ''aaaaaaaaaaaaaaaaaaaaaa01''",
      THEN deleteRoleP]
  have c2: "Doc_delete (roleSatisfies rankOf) isObjectId sampleOpts sampleUsers sampleDocs
       ''dddddddddddddddddddddd01'' (Some ''aaaaaaaaaaaaaaaaaaaaaa01'') =
     (SingleError ''user'' EDocumentMSG.NO_PERMISSION NoStatus, sampleDocs,
      [DocumentExists, ActorExists, RolePermission])"
    by (simp del: map_option_eq_Some)
  from f1 u2 ps rs sn W [where docs = sampleDocs and opts = sampleOpts and identity = "''dddddddddddddddddddddd01''" and
      data = toUnknownAuthor and editorId = "Some ''aaaaaaaaaaaaaaaaaaaaaa02''",
      THEN editOwnerP]
  have o: "resultOf (Doc_edit (roleSatisfies rankOf) isObjectId sampleOpts sampleUsers sampleDocs
       ''dddddddddddddddddddddd01'' toUnknownAuthor (Some ''aaaaaaaaaaaaaaaaaaaaaa02'')) =
     SingleError ''user'' EDocumentMSG.NO_PERMISSION NoStatus \<and>
   last (checksOf (Doc_edit (roleSatisfies rankOf) isObjectId sampleOpts sampleUsers sampleDocs
       ''dddddddddddddddddddddd01'' toUnknownAuthor (Some ''aaaaaaaaaaaaaaaaaaaaaa02''))) = Ownership"
    by (simp del: map_option_eq_Some)
  from f1 u2 po rs sn W [where docs = sampleDocs and opts = openOpts and identity = "''dddddddddddddddddddddd01''" and
      userId = "Some ''aaaaaaaaaaaaaaaaaaaaaa02''",
      THEN deleteOwnerP]
  have o2: "Doc_delete (roleSatisfies rankOf) isObjectId openOpts sampleUsers sampleDocs
       ''dddddddddddddddddddddd01'' (Some ''aaaaaaaaaaaaaaaaaaaaaa02'') =
     (SingleError ''user'' EDocumentMSG.NO_PERMISSION NoStatus, sampleDocs,
      [DocumentExists, ActorExists, RolePermission, Ownership])"
    by (simp del: map_option_eq_Some)
  from f2 u2 ps rs W [where docs = sampleDocs and opts = sampleOpts and identity = "''dddddddddddddddddddddd02''" and
      userId = "Some ''aaaaaaaaaaaaaaaaaaaaaa02''",
      THEN deletePassP]
  have s2: "resultOf (Doc_delete (roleSatisfies rankOf) isObjectId sampleOpts sampleUsers sampleDocs
       ''dddddddddddddddddddddd02'' (Some ''aaaaaaaaaaaaaaaaaaaaaa02'')) =
     Success (Some docSecond) EDocumentMSG.SUCCESS_DELETE (Status EStatusCodes.SUCCESS)"
    by (simp del: map_option_eq_Some)
  from f1 u9 po na W [where docs = sampleDocs and opts = openOpts and identity = "''dddddddddddddddddddddd01''" and
      data = toUnknownAuthor and editorId = None,
      THEN editAuthorP]
  have m: "resultOf (Doc_edit (roleSatisfies rankOf) isObjectId openOpts sampleUsers sampleDocs
       ''dddddddddddddddddddddd01'' toUnknownAuthor None) =
     SingleError ''new_author'' EDocumentMSG.USER_NOT_FOUND (Status NOT_FOUND) \<and>
   last (checksOf (Doc_edit (roleSatisfies rankOf) isObjectId openOpts sampleUsers sampleDocs
       ''dddddddddddddddddddddd01'' toUnknownAuthor None)) = NewAuthorExists"
    by (simp del: map_option_eq_Some)
  from f1 u1 po na rs W [where docs = sampleDocs and opts = openOpts and identity = "''dddddddddddddddddddddd01''" and
      data = toGuestAuthor and editorId = None,
      THEN editAuthorP]
  have i: "resultOf (Doc_edit (roleSatisfies rankOf) isObjectId openOpts sampleUsers sampleDocs
       ''dddddddddddddddddddddd01'' toGuestAuthor None) =
     SingleError ''new_author'' NEW_AUTHOR_IS_NOT_VALID NoStatus \<and>
   last (checksOf (Doc_edit (roleSatisfies rankOf) isObjectId openOpts sampleUsers sampleDocs
       ''dddddddddddddddddddddd01'' toGuestAuthor None)) = NewAuthorPermission"
    by (simp del: map_option_eq_Some)
  from pg W [where docs = "[docFirst]" and opts = guestOpts and author = None,
      THEN createGuestP]
  have k0: "Doc_create (roleSatisfies rankOf) (\<lambda>p ds. docSecond) guestOpts sampleUsers [docFirst] () None =
     (Success (Some docSecond) EDocumentMSG.SUCCESS_CREATE (Status EStatusCodes.SUCCESS_CREATE),
      [docFirst, docSecond], [])"
    by (simp del: map_option_eq_Some)
  from ps fa W [where docs = "[docFirst]" and opts = sampleOpts and author = None,
      THEN createNotGivenP]
  have k1: "Doc_create (roleSatisfies rankOf) (\<lambda>p ds. docSecond) sampleOpts sampleUsers [docFirst] () None =
     (SingleError ''user'' AUTHOR_NOT_FOUND NoStatus, [docFirst], [ActorGiven])"
    by (simp del: map_option_eq_Some)
  from ps fa u9 W [where docs = "[docFirst]" and opts = sampleOpts and author = "Some ''aaaaaaaaaaaaaaaaaaaaaa09''",
      THEN createMissingP]
  have k2: "Doc_create (roleSatisfies rankOf) (\<lambda>p ds. docSecond) sampleOpts sampleUsers [docFirst] ()
       (Some ''aaaaaaaaaaaaaaaaaaaaaa09'') =
     (SingleError ''user'' AUTHOR_NOT_FOUND NoStatus, [docFirst], [ActorGiven, ActorExists])"
    by (simp del: map_option_eq_Some)
  from ps fa u1 rs W [where docs = "[docFirst]" and opts = sampleOpts and author = "Some ''aaaaaaaaaaaaaaaaaaaaaa01''",
      THEN createRoleP]
  have k3: "Doc_create (roleSatisfies rankOf) (\<lambda>p ds. docSecond) sampleOpts sampleUsers [docFirst] ()
       (Some ''aaaaaaaaaaaaaaaaaaaaaa01'') =
     (SingleError ''user'' EDocumentMSG.NO_PERMISSION NoStatus, [docFirst],
      [ActorGiven, ActorExists, RolePermission])"
    by (simp del: map_option_eq_Some)
  from ps fa u2 rs W [where docs = "[docFirst]" and opts = sampleOpts and author = "Some ''aaaaaaaaaaaaaaaaaaaaaa02''",
      THEN createRoleP]
  have k4: "Doc_create (roleSatisfies rankOf) (\<lambda>p ds. docSecond) sampleOpts sampleUsers [docFirst] ()
       (Some ''aaaaaaaaaaaaaaaaaaaaaa02'') =
     (Success (Some docSecond) EDocumentMSG.SUCCESS_CREATE (Status EStatusCodes.SUCCESS_CREATE),
      [docFirst, docSecond], [ActorGiven, ActorExists, RolePermission])"
    by (simp del: map_option_eq_Some)
  show ?thesis
    by (intro conjI)
       (rule a a2 a3 a4 b b2 c c2 o [THEN conjunct1] o [THEN conjunct2] o2 s2
          m [THEN conjunct1] m [THEN conjunct2] i [THEN conjunct1] i [THEN conjunct2]
          k0 k1 k2 k3 k4)+
qed

section \<open>Reassigning the author in edit\<close>





section \<open>Deleting a document\<close>

text \<open>
  What \<open>delete\<close> does for a caller who passes every check, which takes a public policy
  (under a policy that is not public the strict inequality of the ownership test holds for
  every caller): the result carries the resolved record, and the collection loses its
  first record.
\<close>

lemma delete_passing_caller:
  assumes "findDocByIdentity isId doc_id slug identity docs = Some d"
    and "User_findById users userId = Some usr"
    and "Option.bind (advanceOf opts) delete = Some policy"
    and "role policy = GEST \<or> permissionsCheck (Some (role policy)) (Some (user_role usr))"
    and "public policy"
  shows "resultOf (Doc_delete permissionsCheck isId opts users docs identity userId) =
           Success (Some d) EDocumentMSG.SUCCESS_DELETE (Status EStatusCodes.SUCCESS) \<and>
         storedAfter (Doc_delete permissionsCheck isId opts users docs identity userId) =
           deleteOne (\<lambda>x. True) docs \<and>
         deleteOne (\<lambda>x. True) docs = tl docs"
proof -
  have "deleteOne (\<lambda>x. True) docs = tl docs"
    by (cases docs) simp_all
  with assms show ?thesis
    by (auto simp add: Doc_delete_def Let_def)
qed

text \<open>
  C1. The storage call of \<open>delete\<close> carries no filter. On the collection of the two sample
  documents the seller, who passes the role check of the delete policy (the policy is
  public: there is no ownership condition), deletes the second document: the identity
  resolves to the second document and the call returns the success result with it, but the
  collection afterwards holds the second document and no longer the first.
\<close>

theorem delete_removes_first_record:
  "findDocByIdentity isObjectId doc_id slug ''dddddddddddddddddddddd02'' sampleDocs = Some docSecond \<and>
   Doc_delete (roleSatisfies rankOf) isObjectId sampleOpts sampleUsers sampleDocs
      ''dddddddddddddddddddddd02'' (Some ''aaaaaaaaaaaaaaaaaaaaaa02'') =
     (Success (Some docSecond) EDocumentMSG.SUCCESS_DELETE (Status EStatusCodes.SUCCESS),
      [docSecond],
      [DocumentExists, ActorExists, RolePermission])"
  by (simp add: Doc_delete_def sampleOpts_advance findDocByIdentity_def User_findById_def findById_def
      Let_def sample_defs)

theorem delete_removes_first_record_witness:
  "docSecond \<in> set (storedAfter (Doc_delete (roleSatisfies rankOf) isObjectId sampleOpts sampleUsers
       sampleDocs ''dddddddddddddddddddddd02'' (Some ''aaaaaaaaaaaaaaaaaaaaaa02''))) \<and>
   docFirst \<notin> set (storedAfter (Doc_delete (roleSatisfies rankOf) isObjectId sampleOpts sampleUsers
       sampleDocs ''dddddddddddddddddddddd02'' (Some ''aaaaaaaaaaaaaaaaaaaaaa02''))) \<and>
   docFirst \<in> set sampleDocs"
proof -
  have "docFirst \<noteq> docSecond"
    by (simp add: sample_defs)
  with delete_removes_first_record show ?thesis
    by (simp add: sampleDocs_def)
qed

section \<open>Listing the comments of a document\<close>

text \<open>
  C6. \<open>getDocumentComments\<close> resolves the identity in the comment collection. The first
  sample document exists in the document collection and all four sample comments belong to
  it and are accepted, yet the call with the identity of that document returns the error
  "not found" for the article: no comment has the identifier of the document.
\<close>

theorem getDocumentComments_resolves_in_comment_collection:
  "findDocByIdentity isObjectId doc_id slug ''dddddddddddddddddddddd01'' sampleDocs = Some docFirst \<and>
   filter (\<lambda>c. document c = doc_id docFirst \<and> state c = ACCEPTED) sampleCmts = sampleCmts \<and>
   Comment_getDocumentComments isObjectId sampleOpts sampleCmts ''dddddddddddddddddddddd01'' 1 10 =
     Inr (SingleError ''article'' ARTICLE_NOT_FOUND (Status NOT_FOUND))"
  by (simp add: Comment_getDocumentComments_def sampleOpts_comments findDocByIdentity_def
      Let_def sample_defs)

theorem getDocumentComments_resolves_in_comment_collection_witness:
  "Comment_getDocumentComments isObjectId sampleOpts sampleCmts ''dddddddddddddddddddddd01'' 1 10 \<noteq>
     Inr (Paged (map (populate sampleCmts) sampleCmts) (getPageData 1 10 4)
            (Status EStatusCodes.SUCCESS))"
  using getDocumentComments_resolves_in_comment_collection by simp

end
